theory Spec2Isabelle
  imports Complex_Main "HOL-Library.State_Monad"
begin

section \<open>NumPy scalars\<close>

text \<open>
  The arrays of \<^verbatim>\<open>equations_of_motion.py\<close> hold IEEE-754 doubles. A double is
  modelled as a real number or one of the three special values, so that a division by
  zero is a value of the model (as it is for NumPy, which only warns), not an
  unspecified term of HOL. Rounding, overflow, underflow and the sign of zero are not
  modelled: finite arithmetic is exact. The model therefore agrees with the code up to
  rounding where the computation is well conditioned, and says nothing where rounding
  decides the outcome: whether a difference that is zero on the reals is zero in
  doubles (the in-plane velocity of line 212 on a tilted disc), the last digits of a
  normalised quaternion, or a squared norm too small or too large for a double.
\<close>

datatype npfloat = Fin real | PInf | NInf | NaN

fun np_add :: "npfloat \<Rightarrow> npfloat \<Rightarrow> npfloat" where
  "np_add (Fin a) (Fin b) = Fin (a + b)"
| "np_add NaN _ = NaN"
| "np_add _ NaN = NaN"
| "np_add PInf NInf = NaN"
| "np_add NInf PInf = NaN"
| "np_add PInf _ = PInf"
| "np_add _ PInf = PInf"
| "np_add NInf _ = NInf"
| "np_add _ NInf = NInf"

fun np_neg :: "npfloat \<Rightarrow> npfloat" where
  "np_neg (Fin a) = Fin (- a)"
| "np_neg PInf = NInf"
| "np_neg NInf = PInf"
| "np_neg NaN = NaN"

fun np_mul :: "npfloat \<Rightarrow> npfloat \<Rightarrow> npfloat" where
  "np_mul (Fin a) (Fin b) = Fin (a * b)"
| "np_mul NaN _ = NaN"
| "np_mul _ NaN = NaN"
| "np_mul PInf (Fin b) = (if 0 < b then PInf else if b < 0 then NInf else NaN)"
| "np_mul NInf (Fin b) = (if 0 < b then NInf else if b < 0 then PInf else NaN)"
| "np_mul (Fin a) PInf = (if 0 < a then PInf else if a < 0 then NInf else NaN)"
| "np_mul (Fin a) NInf = (if 0 < a then NInf else if a < 0 then PInf else NaN)"
| "np_mul PInf PInf = PInf"
| "np_mul PInf NInf = NInf"
| "np_mul NInf PInf = NInf"
| "np_mul NInf NInf = PInf"

text \<open>Division: a finite value over zero is an infinity or NaN, never an error.\<close>

fun np_div :: "npfloat \<Rightarrow> npfloat \<Rightarrow> npfloat" where
  "np_div (Fin a) (Fin b) =
     (if b = 0 then (if 0 < a then PInf else if a < 0 then NInf else NaN)
      else Fin (a / b))"
| "np_div NaN _ = NaN"
| "np_div _ NaN = NaN"
| "np_div (Fin a) PInf = Fin 0"
| "np_div (Fin a) NInf = Fin 0"
| "np_div PInf (Fin b) = (if b < 0 then NInf else PInf)"
| "np_div NInf (Fin b) = (if b < 0 then PInf else NInf)"
| "np_div PInf PInf = NaN"
| "np_div PInf NInf = NaN"
| "np_div NInf PInf = NaN"
| "np_div NInf NInf = NaN"

instantiation npfloat :: "{plus, minus, uminus, times, inverse}"
begin

definition plus_npfloat :: "npfloat \<Rightarrow> npfloat \<Rightarrow> npfloat" where
  "plus_npfloat a b = np_add a b"

definition minus_npfloat :: "npfloat \<Rightarrow> npfloat \<Rightarrow> npfloat" where
  "minus_npfloat a b = np_add a (np_neg b)"

definition uminus_npfloat :: "npfloat \<Rightarrow> npfloat" where
  "uminus_npfloat a = np_neg a"

definition times_npfloat :: "npfloat \<Rightarrow> npfloat \<Rightarrow> npfloat" where
  "times_npfloat a b = np_mul a b"

definition divide_npfloat :: "npfloat \<Rightarrow> npfloat \<Rightarrow> npfloat" where
  "divide_npfloat a b = np_div a b"

definition inverse_npfloat :: "npfloat \<Rightarrow> npfloat" where
  "inverse_npfloat a = np_div (Fin 1) a"

instance ..

end

text \<open>\<^verbatim>\<open>np.sqrt\<close> and \<^verbatim>\<open>np.arctan\<close>.\<close>

fun np_sqrt :: "npfloat \<Rightarrow> npfloat" where
  "np_sqrt (Fin a) = (if a < 0 then NaN else Fin (sqrt a))"
| "np_sqrt PInf = PInf"
| "np_sqrt NInf = NaN"
| "np_sqrt NaN = NaN"

fun np_arctan :: "npfloat \<Rightarrow> npfloat" where
  "np_arctan (Fin a) = Fin (arctan a)"
| "np_arctan PInf = Fin (pi / 2)"
| "np_arctan NInf = Fin (- (pi / 2))"
| "np_arctan NaN = NaN"

text \<open>
  \<^verbatim>\<open>math.isclose(a, b)\<close> with its default tolerances \<^verbatim>\<open>rel_tol=1e-09\<close> and
  \<^verbatim>\<open>abs_tol=0.0\<close>: equal values are close, an infinity is close only to itself, NaN is
  close to nothing, and otherwise the difference is compared with the relative
  tolerance times either argument, or with the absolute tolerance.
\<close>

definition rel_tol :: real where
  "rel_tol = 1 / 10 ^ 9"

definition abs_tol :: real where
  "abs_tol = 0"

fun isclose :: "npfloat \<Rightarrow> npfloat \<Rightarrow> bool" where
  "isclose (Fin a) (Fin b) =
     (a = b \<or> \<bar>b - a\<bar> \<le> \<bar>rel_tol * b\<bar> \<or> \<bar>b - a\<bar> \<le> \<bar>rel_tol * a\<bar> \<or> \<bar>b - a\<bar> \<le> abs_tol)"
| "isclose PInf PInf = True"
| "isclose NInf NInf = True"
| "isclose _ _ = False"

text \<open>\<^verbatim>\<open>np.isfinite\<close>.\<close>

fun isfinite :: "npfloat \<Rightarrow> bool" where
  "isfinite (Fin a) = True"
| "isfinite PInf = False"
| "isfinite NInf = False"
| "isfinite NaN = False"

section \<open>Arrays of three and four components\<close>

text \<open>
  The operations are written once for any scalar type with the arithmetic symbols:
  the program uses them on \<^typ>\<open>npfloat\<close>, the statements about finite values on
  \<^typ>\<open>real\<close>.
\<close>

type_synonym 'a vec3 = "'a \<times> 'a \<times> 'a"
type_synonym 'a vec4 = "'a \<times> 'a \<times> 'a \<times> 'a"
type_synonym 'a mat3 = "'a vec3 \<times> 'a vec3 \<times> 'a vec3"

fun idx0 :: "'a vec3 \<Rightarrow> 'a" where "idx0 (a0, a1, a2) = a0"
fun idx1 :: "'a vec3 \<Rightarrow> 'a" where "idx1 (a0, a1, a2) = a1"
fun idx2 :: "'a vec3 \<Rightarrow> 'a" where "idx2 (a0, a1, a2) = a2"

text \<open>\<^verbatim>\<open>a @ b\<close> on two arrays of three.\<close>

fun dot3 :: "'a vec3 \<Rightarrow> 'a vec3 \<Rightarrow> 'a::{plus,times}" where
  "dot3 (a0, a1, a2) (b0, b1, b2) = a0 * b0 + a1 * b1 + a2 * b2"

text \<open>\<^verbatim>\<open>np.cross(a, b)\<close>.\<close>

fun cross :: "'a vec3 \<Rightarrow> 'a vec3 \<Rightarrow> ('a::{minus,times}) vec3" where
  "cross (a0, a1, a2) (b0, b1, b2) =
     (a1 * b2 - a2 * b1, a2 * b0 - a0 * b2, a0 * b1 - a1 * b0)"

text \<open>Scalar times array, array over scalar, and the elementwise operations.\<close>

fun smul :: "'a \<Rightarrow> 'a vec3 \<Rightarrow> ('a::times) vec3" where
  "smul s (a0, a1, a2) = (s * a0, s * a1, s * a2)"

fun vmul :: "'a vec3 \<Rightarrow> 'a \<Rightarrow> ('a::times) vec3" where
  "vmul (a0, a1, a2) s = (a0 * s, a1 * s, a2 * s)"

fun vdiv :: "'a vec3 \<Rightarrow> 'a \<Rightarrow> ('a::inverse) vec3" where
  "vdiv (a0, a1, a2) s = (a0 / s, a1 / s, a2 / s)"

fun vadd :: "'a vec3 \<Rightarrow> 'a vec3 \<Rightarrow> ('a::plus) vec3" where
  "vadd (a0, a1, a2) (b0, b1, b2) = (a0 + b0, a1 + b1, a2 + b2)"

fun vsub :: "'a vec3 \<Rightarrow> 'a vec3 \<Rightarrow> ('a::minus) vec3" where
  "vsub (a0, a1, a2) (b0, b1, b2) = (a0 - b0, a1 - b1, a2 - b2)"

fun vneg :: "'a vec3 \<Rightarrow> ('a::uminus) vec3" where
  "vneg (a0, a1, a2) = (- a0, - a1, - a2)"

text \<open>\<^verbatim>\<open>R @ v\<close> for a 3x3 matrix given by its rows.\<close>

fun mat_vec :: "'a mat3 \<Rightarrow> 'a vec3 \<Rightarrow> ('a::{plus,times}) vec3" where
  "mat_vec (r0, r1, r2) v = (dot3 r0 v, dot3 r1 v, dot3 r2 v)"

fun dot4 :: "'a vec4 \<Rightarrow> 'a vec4 \<Rightarrow> 'a::{plus,times}" where
  "dot4 (a0, a1, a2, a3) (b0, b1, b2, b3) = a0 * b0 + a1 * b1 + a2 * b2 + a3 * b3"

fun qmul :: "'a vec4 \<Rightarrow> 'a \<Rightarrow> ('a::times) vec4" where
  "qmul (a0, a1, a2, a3) s = (a0 * s, a1 * s, a2 * s, a3 * s)"

fun qdiv :: "'a vec4 \<Rightarrow> 'a \<Rightarrow> ('a::inverse) vec4" where
  "qdiv (a0, a1, a2, a3) s = (a0 / s, a1 / s, a2 / s, a3 / s)"

text \<open>\<^verbatim>\<open>np.linalg.norm\<close> of an array of three: the root of its dot product with itself.\<close>

definition norm3 :: "npfloat vec3 \<Rightarrow> npfloat" where
  "norm3 v = np_sqrt (dot3 v v)"

definition norm4 :: "npfloat vec4 \<Rightarrow> npfloat" where
  "norm4 q = np_sqrt (dot4 q q)"

text \<open>Arrays of finite values.\<close>

fun lift3 :: "real vec3 \<Rightarrow> npfloat vec3" where
  "lift3 (a0, a1, a2) = (Fin a0, Fin a1, Fin a2)"

fun lift4 :: "real vec4 \<Rightarrow> npfloat vec4" where
  "lift4 (a0, a1, a2, a3) = (Fin a0, Fin a1, Fin a2, Fin a3)"

section \<open>SciPy rotations\<close>

text \<open>
  \<^verbatim>\<open>scipy.spatial.transform.Rotation\<close> is a library class; what the program uses of it
  is modelled from its behaviour. A rotation holds a scalar-last quaternion
  \<open>(x, y, z, w)\<close>, normalised by the constructor.
\<close>

type_synonym rotation = "npfloat vec4"

text \<open>
  The errors the evaluation can raise: unpacking a state that does not have thirteen
  components and the constructor's \<^verbatim>\<open>Found zero norm quaternions\<close>, both a
  \<^verbatim>\<open>ValueError\<close> in Python, and the \<^verbatim>\<open>ZeroDivisionError\<close> of a division of two
  Python floats. The source has no \<^verbatim>\<open>raise\<close> of its own.
\<close>

datatype error = ValueError_unpack | ValueError_zero_norm | ZeroDivisionError

text \<open>
  The constructor rejects a quaternion whose norm is zero. What it does with a norm
  that is NaN depends on the library version: the documented check compares the norm
  with zero only, and NaN components pass through (\<open>ZeroOnly\<close>); the compiled
  constructor of later versions reports a NaN norm with the same error (\<open>ZeroOrNaN\<close>).
  The model takes the check as a parameter; on finite quaternions the two agree.
\<close>

datatype quat_check = ZeroOnly | ZeroOrNaN

definition from_quat :: "quat_check \<Rightarrow> npfloat vec4 \<Rightarrow> error + rotation" where
  "from_quat chk quat =
     (let n = norm4 quat in
      if n = Fin 0 then Inl ValueError_zero_norm
      else if chk = ZeroOrNaN \<and> n = NaN then Inl ValueError_zero_norm
      else Inr (qdiv quat n))"

definition as_quat :: "rotation \<Rightarrow> npfloat vec4" where
  "as_quat r = r"

text \<open>\<^verbatim>\<open>as_matrix\<close>: the rotation matrix of a unit quaternion, by rows.\<close>

fun as_matrix :: "rotation \<Rightarrow> npfloat mat3" where
  "as_matrix (x, y, z, w) =
     (let x2 = x * x; y2 = y * y; z2 = z * z; w2 = w * w;
          xy = x * y; zw = z * w; xz = x * z; yw = y * w; yz = y * z; xw = x * w
      in ((x2 - y2 - z2 + w2, Fin 2 * (xy - zw), Fin 2 * (xz + yw)),
          (Fin 2 * (xy + zw), - x2 + y2 - z2 + w2, Fin 2 * (yz - xw)),
          (Fin 2 * (xz - yw), Fin 2 * (yz + xw), - x2 - y2 + z2 + w2)))"

text \<open>
  The quaternion of the composition \<^verbatim>\<open>p * q\<close>: the Hamilton product of the two
  quaternions, scalar last.
\<close>

fun compose_quat :: "'a vec4 \<Rightarrow> 'a vec4 \<Rightarrow> ('a::{plus,minus,times}) vec4" where
  "compose_quat (p0, p1, p2, p3) (q0, q1, q2, q3) =
     (case cross (p0, p1, p2) (q0, q1, q2) of (c0, c1, c2) \<Rightarrow>
        (p3 * q0 + q3 * p0 + c0,
         p3 * q1 + q3 * p1 + c1,
         p3 * q2 + q3 * p2 + c2,
         p3 * q3 - dot3 (p0, p1, p2) (q0, q1, q2)))"

text \<open>\<^verbatim>\<open>p * q\<close> builds the product through the normalising constructor.\<close>

definition rot_mul :: "quat_check \<Rightarrow> rotation \<Rightarrow> rotation \<Rightarrow> error + rotation" where
  "rot_mul chk p q = from_quat chk (compose_quat p q)"

section \<open>Environment, Model and the intermediate results\<close>

text \<open>
  \<^verbatim>\<open>frispy.environment\<close> and \<^verbatim>\<open>frispy.model\<close> are not part of the source at hand: the
  attributes the equations read are fields, the coefficient functions are parameters.
\<close>

record Environment =
  air_density :: npfloat
  g :: npfloat
  grav_vector :: "npfloat vec3"

record Model =
  mass :: npfloat
  area :: npfloat
  diameter :: npfloat
  I_xx :: npfloat
  I_zz :: npfloat
  dampening_factor :: npfloat
  dampening_z :: npfloat
  C_lift :: "npfloat \<Rightarrow> npfloat"
  C_drag :: "npfloat \<Rightarrow> npfloat"
  C_side :: "npfloat \<Rightarrow> npfloat \<Rightarrow> npfloat \<Rightarrow> npfloat"
  C_x :: "npfloat \<Rightarrow> npfloat \<Rightarrow> npfloat \<Rightarrow> npfloat"
  C_y :: "npfloat \<Rightarrow> npfloat"

record EOM =
  environment :: Environment
  model :: Model

text \<open>
  The dictionary \<^verbatim>\<open>res\<close> grows as the evaluation proceeds; each stage is a record
  that extends the one before with the keys the stage adds. The keys \<^verbatim>\<open>w\<close> and
  \<^verbatim>\<open>T\<close> are the fields \<open>res_w\<close> and \<open>res_T\<close>.
\<close>

record unit_vectors =
  xhat :: "npfloat vec3"
  yhat :: "npfloat vec3"
  zhat :: "npfloat vec3"

record intermediate =
  unit_vectors :: unit_vectors
  angle_of_attack :: npfloat
  res_w :: "npfloat vec3"

record forces = intermediate +
  F_lift :: "npfloat vec3"
  F_side :: "npfloat vec3"
  F_drag :: "npfloat vec3"
  F_grav :: "npfloat vec3"
  F_total :: "npfloat vec3"
  Acc :: "npfloat vec3"

record torques = forces +
  torque_amplitude :: npfloat
  res_T :: "npfloat vec3"
  dq :: "npfloat vec4"

section \<open>The equations of motion\<close>

text \<open>
  The local variables \<^verbatim>\<open>zhat\<close>, \<^verbatim>\<open>v_dot_zhat\<close> and \<^verbatim>\<open>v_in_plane\<close> of
  \<^verbatim>\<open>calculate_intermediate_quantities\<close> (lines 208 to 212), named so that statements
  can speak of them.
\<close>

definition zhat_of :: "rotation \<Rightarrow> npfloat vec3" where
  "zhat_of rotation = mat_vec (as_matrix rotation) (Fin 0, Fin 0, Fin 1)"

definition v_dot_zhat_of :: "rotation \<Rightarrow> npfloat vec3 \<Rightarrow> npfloat" where
  "v_dot_zhat_of rotation velocity = dot3 velocity (zhat_of rotation)"

definition v_in_plane_of :: "rotation \<Rightarrow> npfloat vec3 \<Rightarrow> npfloat vec3" where
  "v_in_plane_of rotation velocity =
     vsub velocity (vmul (zhat_of rotation) (v_dot_zhat_of rotation velocity))"

definition calculate_intermediate_quantities ::
  "rotation \<Rightarrow> npfloat vec3 \<Rightarrow> npfloat vec3 \<Rightarrow> intermediate" where
  "calculate_intermediate_quantities rotation velocity ang_velocity =
     (let R = as_matrix rotation;
          zhat' = zhat_of rotation;
          v_dot_zhat = v_dot_zhat_of rotation velocity;
          v_in_plane = v_in_plane_of rotation velocity;
          xhat' = vdiv v_in_plane (norm3 v_in_plane);
          yhat' = cross zhat' xhat';
          angle_of_attack' = - np_arctan (v_dot_zhat / norm3 v_in_plane);
          w = mat_vec R (idx0 ang_velocity, idx1 ang_velocity, Fin 0)
      in \<lparr> unit_vectors = \<lparr> xhat = xhat', yhat = yhat', zhat = zhat' \<rparr>,
           angle_of_attack = angle_of_attack',
           res_w = w \<rparr>)"

definition compute_forces ::
  "EOM \<Rightarrow> rotation \<Rightarrow> npfloat vec3 \<Rightarrow> npfloat vec3 \<Rightarrow> forces" where
  "compute_forces self rotation velocity ang_velocity =
     (let res = calculate_intermediate_quantities rotation velocity ang_velocity;
          aoa = angle_of_attack res;
          v_norm = norm3 velocity;
          vhat = vdiv velocity v_norm;
          force_amplitude =
            Fin (1 / 2) * air_density (environment self) * dot3 velocity velocity
              * area (model self);
          F_lift' = smul (C_lift (model self) aoa * force_amplitude)
                      (cross vhat (yhat (unit_vectors res)));
          F_side' = smul (C_side (model self) aoa v_norm (idx2 ang_velocity) * force_amplitude)
                      (yhat (unit_vectors res));
          F_drag' = smul (C_drag (model self) aoa * force_amplitude) (vneg vhat);
          F_grav' = smul (mass (model self) * g (environment self))
                      (grav_vector (environment self));
          F_total' = vadd (vadd (vadd F_lift' F_drag') F_grav') F_side';
          Acc' = vdiv F_total' (mass (model self))
      in \<lparr> unit_vectors = unit_vectors res,
           angle_of_attack = angle_of_attack res,
           res_w = res_w res,
           F_lift = F_lift', F_side = F_side', F_drag = F_drag', F_grav = F_grav',
           F_total = F_total', Acc = Acc' \<rparr>)"

text \<open>
  The dynamic pressure scale as the specification states it,
  half the air density times the dot product of the velocity with itself times the
  area, to compare the forces with.
\<close>

definition dynamic_pressure_scale :: "EOM \<Rightarrow> npfloat vec3 \<Rightarrow> npfloat" where
  "dynamic_pressure_scale self velocity =
     Fin (1 / 2) * air_density (environment self) * dot3 velocity velocity * area (model self)"

text \<open>
  \<^verbatim>\<open>compute_wobble_precession\<close> stores its result under the key \<^verbatim>\<open>T\<close> of \<^verbatim>\<open>res\<close>;
  the model returns the value, and \<open>compute_torques\<close> stores it. The components of
  the angular velocity are NumPy scalars, so the divisions of line 132 are NumPy's and
  never raise. The attributes of the model are Python floats: line 136 divides
  \<^verbatim>\<open>delta_moment\<close> by \<^verbatim>\<open>i_xx\<close> as Python does, which raises \<^verbatim>\<open>ZeroDivisionError\<close>
  when the divisor is zero, whatever the dividend.
\<close>

definition compute_wobble_precession ::
  "EOM \<Rightarrow> npfloat vec3 \<Rightarrow> npfloat \<Rightarrow> error + npfloat vec3" where
  "compute_wobble_precession self ang_velocity torque =
     (let i_xx = I_xx (model self);
          i_zz = I_zz (model self);
          wx = idx0 ang_velocity; wy = idx1 ang_velocity; wz = idx2 ang_velocity;
          dampening = dampening_factor (model self);
          dampening_z' = dampening_z (model self);
          acc = vmul (wx * dampening / i_xx, wy * dampening / i_xx, wz * dampening_z' / i_zz)
                  torque;
          delta_moment = I_zz (model self) - I_xx (model self)
      in if i_xx = Fin 0 then Inl ZeroDivisionError
         else Inr (vadd acc (smul (delta_moment / i_xx * Fin 2 * wz) (- wy, wx, Fin 0))))"

text \<open>The parts of \<^verbatim>\<open>compute_torques\<close>: the torque amplitude (lines 87 to 93).\<close>

definition torque_amplitude_of :: "EOM \<Rightarrow> npfloat vec3 \<Rightarrow> npfloat" where
  "torque_amplitude_of self velocity =
     Fin (1 / 2) * air_density (environment self) * dot3 velocity velocity
       * diameter (model self) * area (model self)"

text \<open>The local variables \<^verbatim>\<open>roll\<close> and \<^verbatim>\<open>pitch_up\<close> (lines 102 and 103).\<close>

definition roll :: "EOM \<Rightarrow> npfloat vec3 \<Rightarrow> forces \<Rightarrow> npfloat vec3" where
  "roll self velocity res =
     smul (C_y (model self) (angle_of_attack res) * torque_amplitude_of self velocity)
       (xhat (unit_vectors res))"

definition pitch_up :: "EOM \<Rightarrow> npfloat vec3 \<Rightarrow> npfloat vec3 \<Rightarrow> forces \<Rightarrow> npfloat vec3" where
  "pitch_up self velocity ang_velocity res =
     smul (C_x (model self) (angle_of_attack res) (norm3 velocity) (idx2 ang_velocity)
             * torque_amplitude_of self velocity)
       (yhat (unit_vectors res))"

text \<open>The local variable \<^verbatim>\<open>w\<close> after line 107: the precession rate plus the wobble.\<close>

definition combined_w :: "EOM \<Rightarrow> npfloat vec3 \<Rightarrow> npfloat vec3 \<Rightarrow> forces \<Rightarrow> npfloat vec3" where
  "combined_w self velocity ang_velocity res =
     (let wobble = res_w res;
          w = vdiv (vadd (roll self velocity res) (pitch_up self velocity ang_velocity res))
                (I_zz (model self) * idx2 ang_velocity)
      in vadd w wobble)"

text \<open>
  Lines 110 to 114 and 117: the rotation \<^verbatim>\<open>wquat\<close>, which the constructor may refuse,
  and the quaternion derivative made from it.
\<close>

definition quaternion_rate :: "quat_check \<Rightarrow> rotation \<Rightarrow> npfloat vec3 \<Rightarrow> error + npfloat vec4" where
  "quaternion_rate chk rotation w =
     (let w_norm = norm3 w;
          wquat = (if isclose (Fin 0) w_norm
                   then from_quat chk (Fin 0, Fin 0, Fin 0, Fin 1)
                   else (case from_quat chk (idx0 w, idx1 w, idx2 w, Fin 0) of
                           Inl e \<Rightarrow> Inl e
                         | Inr p \<Rightarrow> rot_mul chk p rotation))
      in (case wquat of
            Inl e \<Rightarrow> Inl e
          | Inr wq \<Rightarrow> Inr (qdiv (qmul (as_quat wq) w_norm) (Fin 2))))"

text \<open>
  \<^verbatim>\<open>compute_torques\<close>: the rotation \<^verbatim>\<open>wquat\<close> is built first (lines 111 to 114), then
  \<^verbatim>\<open>compute_wobble_precession\<close> is called (line 116), so an error of the constructor
  comes before the division error.
\<close>

definition compute_torques ::
  "quat_check \<Rightarrow> EOM \<Rightarrow> npfloat vec3 \<Rightarrow> npfloat vec3 \<Rightarrow> rotation \<Rightarrow> forces \<Rightarrow> error + torques" where
  "compute_torques chk self velocity ang_velocity rotation res =
     (let torque = torque_amplitude_of self velocity;
          w = combined_w self velocity ang_velocity res
      in (case quaternion_rate chk rotation w of
            Inl e \<Rightarrow> Inl e
          | Inr dq' \<Rightarrow>
              (case compute_wobble_precession self ang_velocity torque of
                 Inl e \<Rightarrow> Inl e
               | Inr T \<Rightarrow>
                   Inr \<lparr> unit_vectors = unit_vectors res,
                         angle_of_attack = angle_of_attack res,
                         res_w = res_w res,
                         F_lift = F_lift res, F_side = F_side res, F_drag = F_drag res,
                         F_grav = F_grav res, F_total = F_total res, Acc = Acc res,
                         torque_amplitude = torque,
                         res_T = T,
                         dq = dq' \<rparr>)))"

text \<open>
  The entry point. The state is the array \<^verbatim>\<open>coordinates\<close>; unpacking it into thirteen
  names raises unless it has thirteen components.
\<close>

definition compute_derivatives ::
  "quat_check \<Rightarrow> EOM \<Rightarrow> npfloat \<Rightarrow> npfloat list \<Rightarrow> error + npfloat list" where
  "compute_derivatives chk self time coordinates =
     (if length coordinates \<noteq> 13 then Inl ValueError_unpack
      else
        (let vx = coordinates ! 3; vy = coordinates ! 4; vz = coordinates ! 5;
             qx = coordinates ! 6; qy = coordinates ! 7; qz = coordinates ! 8;
             qw = coordinates ! 9;
             dphi = coordinates ! 10; dtheta = coordinates ! 11; dgamma = coordinates ! 12;
             velocity = (vx, vy, vz)
         in (case from_quat chk (qx, qy, qz, qw) of
               Inl e \<Rightarrow> Inl e
             | Inr rotation \<Rightarrow>
                 (let ang_velocity = (dphi, dtheta, dgamma);
                      result = compute_forces self rotation velocity ang_velocity
                  in (case compute_torques chk self velocity ang_velocity rotation result of
                        Inl e \<Rightarrow> Inl e
                      | Inr result \<Rightarrow>
                          Inr [vx, vy, vz,
                               idx0 (Acc result), idx1 (Acc result), idx2 (Acc result),
                               fst (dq result), fst (snd (dq result)),
                               fst (snd (snd (dq result))), snd (snd (snd (dq result))),
                               idx0 (res_T result), idx1 (res_T result),
                               idx2 (res_T result)])))))"

text \<open>The components of an array of three or four, as a list.\<close>

definition vec3_list :: "'a vec3 \<Rightarrow> 'a list" where
  "vec3_list v = [idx0 v, idx1 v, idx2 v]"

definition vec4_list :: "'a vec4 \<Rightarrow> 'a list" where
  "vec4_list q = [fst q, fst (snd q), fst (snd (snd q)), snd (snd (snd q))]"

section \<open>The angle of attack as the specification states it\<close>

text \<open>
  Section 4.1 of the specification, on reals, to compare the resolver with. The
  rotation of a unit quaternion \<open>q\<close> takes a vector \<open>u\<close> to the vector part of
  \<open>q (u, 0) q\<^sup>*\<close>, with the Hamilton product and the conjugate \<open>q\<^sup>*\<close>; the disc normal
  \<open>zhat\<close> is the image of the reference axis \<open>(0, 0, 1)\<close> (step 1); the velocity is
  decomposed into its component along \<open>zhat\<close> and the in-plane residual (step 2); the
  angle of attack is minus the arctangent of the component over the norm of the
  residual (step 5).
\<close>

definition quat_conj :: "real vec4 \<Rightarrow> real vec4" where
  "quat_conj q = (case q of (x, y, z, w) \<Rightarrow> (- x, - y, - z, w))"

definition rotate_vector :: "real vec4 \<Rightarrow> real vec3 \<Rightarrow> real vec3" where
  "rotate_vector q u =
     (case compose_quat (compose_quat q (idx0 u, idx1 u, idx2 u, 0)) (quat_conj q) of
        (a, b, c, d) \<Rightarrow> (a, b, c))"

definition spec_zhat :: "real vec4 \<Rightarrow> real vec3" where
  "spec_zhat q = rotate_vector q (0, 0, 1)"

definition spec_v_dot_zhat :: "real vec4 \<Rightarrow> real vec3 \<Rightarrow> real" where
  "spec_v_dot_zhat q v = dot3 v (spec_zhat q)"

definition spec_v_in_plane :: "real vec4 \<Rightarrow> real vec3 \<Rightarrow> real vec3" where
  "spec_v_in_plane q v = vsub v (vmul (spec_zhat q) (spec_v_dot_zhat q v))"

definition spec_angle_of_attack :: "real vec4 \<Rightarrow> real vec3 \<Rightarrow> real" where
  "spec_angle_of_attack q v =
     - arctan (spec_v_dot_zhat q v
                 / sqrt (dot3 (spec_v_in_plane q v) (spec_v_in_plane q v)))"

section \<open>The objects of a run\<close>

text \<open>
  What a call can change is modelled as a store. It holds the object the integrator
  calls, flattened: the \<^verbatim>\<open>Environment\<close> instance that \<^verbatim>\<open>self._environment\<close> refers to,
  with its two floats and the address of its array \<^verbatim>\<open>grav_vector\<close>, and the \<^verbatim>\<open>Model\<close>
  instance that \<^verbatim>\<open>self._model\<close> refers to. And it holds the NumPy arrays that have an
  identity for the program: those that exist before a call (the state vector of the
  caller, \<^verbatim>\<open>grav_vector\<close>) and those the code updates in place after creating them
  (\<^verbatim>\<open>w\<close> at line 107 and \<^verbatim>\<open>acc\<close> at line 136). An array that is written only when it is
  created is modelled by its value, and so is the dictionary \<^verbatim>\<open>res\<close>, which every call
  creates anew (line 221) and hands from method to method. The coefficient functions
  are methods of \<^verbatim>\<open>Model\<close>, whose code is not part of the source at hand: they are
  taken to be functions of their arguments.
\<close>

type_synonym addr = nat

record Environment_obj =
  obj_air_density :: npfloat
  obj_g :: npfloat
  obj_grav_vector :: addr

record store =
  ndarrays :: "npfloat list list"
  environment_obj :: Environment_obj
  model_obj :: Model

text \<open>
  The statements that touch the store: creating an array, reading one, adding to one in
  place (\<^verbatim>\<open>a += b\<close>), and reading an attribute through the properties \<^verbatim>\<open>environment\<close>
  and \<^verbatim>\<open>model\<close> of \<^verbatim>\<open>self\<close>.
\<close>

definition np_array :: "npfloat list \<Rightarrow> (store, addr) state" where
  "np_array xs = State (\<lambda>h. (length (ndarrays h), h\<lparr>ndarrays := ndarrays h @ [xs]\<rparr>))"

definition array_values :: "addr \<Rightarrow> (store, npfloat list) state" where
  "array_values a = State (\<lambda>h. (ndarrays h ! a, h))"

definition array_iadd :: "addr \<Rightarrow> npfloat list \<Rightarrow> (store, unit) state" where
  "array_iadd a xs =
     State (\<lambda>h. ((), h\<lparr>ndarrays := (ndarrays h)[a := map2 (+) (ndarrays h ! a) xs]\<rparr>))"

definition self_environment :: "(Environment_obj \<Rightarrow> 'a) \<Rightarrow> (store, 'a) state" where
  "self_environment attr = State (\<lambda>h. (attr (environment_obj h), h))"

definition self_model :: "(Model \<Rightarrow> 'a) \<Rightarrow> (store, 'a) state" where
  "self_model attr = State (\<lambda>h. (attr (model_obj h), h))"

definition vec3_of :: "'a list \<Rightarrow> 'a vec3" where
  "vec3_of xs = (xs ! 0, xs ! 1, xs ! 2)"

text \<open>
  The methods, statement by statement, on the store. The resolver is a static method
  of values and has no statement that touches the store.
\<close>

definition compute_forces_st ::
  "rotation \<Rightarrow> npfloat vec3 \<Rightarrow> npfloat vec3 \<Rightarrow> (store, forces) state" where
  "compute_forces_st rotation velocity ang_velocity = do {
     let res = calculate_intermediate_quantities rotation velocity ang_velocity;
     let aoa = angle_of_attack res;
     let v_norm = norm3 velocity;
     let vhat = vdiv velocity v_norm;
     rho \<leftarrow> self_environment obj_air_density;
     area' \<leftarrow> self_model area;
     let force_amplitude = Fin (1 / 2) * rho * dot3 velocity velocity * area';
     c_lift \<leftarrow> self_model C_lift;
     let F_lift' = smul (c_lift aoa * force_amplitude) (cross vhat (yhat (unit_vectors res)));
     c_side \<leftarrow> self_model C_side;
     let F_side' = smul (c_side aoa v_norm (idx2 ang_velocity) * force_amplitude)
                     (yhat (unit_vectors res));
     c_drag \<leftarrow> self_model C_drag;
     let F_drag' = smul (c_drag aoa * force_amplitude) (vneg vhat);
     mass' \<leftarrow> self_model mass;
     g' \<leftarrow> self_environment obj_g;
     gv \<leftarrow> self_environment obj_grav_vector;
     grav \<leftarrow> array_values gv;
     let F_grav' = smul (mass' * g') (vec3_of grav);
     let F_total' = vadd (vadd (vadd F_lift' F_drag') F_grav') F_side';
     mass'' \<leftarrow> self_model mass;
     let Acc' = vdiv F_total' mass'';
     State_Monad.return
       \<lparr> unit_vectors = unit_vectors res,
         angle_of_attack = angle_of_attack res,
         res_w = res_w res,
         F_lift = F_lift', F_side = F_side', F_drag = F_drag', F_grav = F_grav',
         F_total = F_total', Acc = Acc' \<rparr>
   }"

definition compute_wobble_precession_st ::
  "npfloat vec3 \<Rightarrow> npfloat \<Rightarrow> (store, error + npfloat vec3) state" where
  "compute_wobble_precession_st ang_velocity torque = do {
     i_xx \<leftarrow> self_model I_xx;
     i_zz \<leftarrow> self_model I_zz;
     let wx = idx0 ang_velocity;
     let wy = idx1 ang_velocity;
     let wz = idx2 ang_velocity;
     dampening \<leftarrow> self_model dampening_factor;
     dampening_z' \<leftarrow> self_model dampening_z;
     acc \<leftarrow> np_array (vec3_list
              (vmul (wx * dampening / i_xx, wy * dampening / i_xx, wz * dampening_z' / i_zz)
                 torque));
     m_zz \<leftarrow> self_model I_zz;
     m_xx \<leftarrow> self_model I_xx;
     let delta_moment = m_zz - m_xx;
     if i_xx = Fin 0 then State_Monad.return (Inl ZeroDivisionError)
     else do {
       array_iadd acc (vec3_list (smul (delta_moment / i_xx * Fin 2 * wz) (- wy, wx, Fin 0)));
       T \<leftarrow> array_values acc;
       State_Monad.return (Inr (vec3_of T))
     }
   }"

definition compute_torques_st ::
  "quat_check \<Rightarrow> npfloat vec3 \<Rightarrow> npfloat vec3 \<Rightarrow> rotation \<Rightarrow> forces
     \<Rightarrow> (store, error + torques) state" where
  "compute_torques_st chk velocity ang_velocity rotation res = do {
     let aoa = angle_of_attack res;
     rho \<leftarrow> self_environment obj_air_density;
     diameter' \<leftarrow> self_model diameter;
     area' \<leftarrow> self_model area;
     let torque = Fin (1 / 2) * rho * dot3 velocity velocity * diameter' * area';
     i_xx \<leftarrow> self_model I_xx;
     i_zz \<leftarrow> self_model I_zz;
     let wz = idx2 ang_velocity;
     let v_norm = norm3 velocity;
     c_y \<leftarrow> self_model C_y;
     let roll' = smul (c_y aoa * torque) (xhat (unit_vectors res));
     c_x \<leftarrow> self_model C_x;
     let pitch_up' = smul (c_x aoa v_norm wz * torque) (yhat (unit_vectors res));
     let wobble = res_w res;
     w \<leftarrow> np_array (vec3_list (vdiv (vadd roll' pitch_up') (i_zz * wz)));
     array_iadd w (vec3_list wobble);
     w_now \<leftarrow> array_values w;
     (case quaternion_rate chk rotation (vec3_of w_now) of
        Inl e \<Rightarrow> State_Monad.return (Inl e)
      | Inr dq' \<Rightarrow> do {
          T \<leftarrow> compute_wobble_precession_st ang_velocity torque;
          (case T of
             Inl e \<Rightarrow> State_Monad.return (Inl e)
           | Inr T' \<Rightarrow>
               State_Monad.return
                 (Inr \<lparr> unit_vectors = unit_vectors res,
                        angle_of_attack = angle_of_attack res,
                        res_w = res_w res,
                        F_lift = F_lift res, F_side = F_side res, F_drag = F_drag res,
                        F_grav = F_grav res, F_total = F_total res, Acc = Acc res,
                        torque_amplitude = torque,
                        res_T = T',
                        dq = dq' \<rparr>))
        })
   }"

text \<open>
  The entry point on the store: \<open>coordinates\<close> is the address of the state vector the
  integrator passes; the result array is handed to the caller, by value here.
\<close>

definition compute_derivatives_st ::
  "quat_check \<Rightarrow> npfloat \<Rightarrow> addr \<Rightarrow> (store, error + npfloat list) state" where
  "compute_derivatives_st chk time coordinates = do {
     xs \<leftarrow> array_values coordinates;
     if length xs \<noteq> 13 then State_Monad.return (Inl ValueError_unpack)
     else do {
       let vx = xs ! 3;
       let vy = xs ! 4;
       let vz = xs ! 5;
       let qx = xs ! 6;
       let qy = xs ! 7;
       let qz = xs ! 8;
       let qw = xs ! 9;
       let dphi = xs ! 10;
       let dtheta = xs ! 11;
       let dgamma = xs ! 12;
       let velocity = (vx, vy, vz);
       (case from_quat chk (qx, qy, qz, qw) of
          Inl e \<Rightarrow> State_Monad.return (Inl e)
        | Inr rotation \<Rightarrow> do {
            let ang_velocity = (dphi, dtheta, dgamma);
            result \<leftarrow> compute_forces_st rotation velocity ang_velocity;
            r \<leftarrow> compute_torques_st chk velocity ang_velocity rotation result;
            (case r of
               Inl e \<Rightarrow> State_Monad.return (Inl e)
             | Inr result' \<Rightarrow>
                 State_Monad.return
                   (Inr [vx, vy, vz,
                         idx0 (Acc result'), idx1 (Acc result'), idx2 (Acc result'),
                         fst (dq result'), fst (snd (dq result')),
                         fst (snd (snd (dq result'))), snd (snd (snd (dq result'))),
                         idx0 (res_T result'), idx1 (res_T result'),
                         idx2 (res_T result')]))
          })
     }
   }"

text \<open>
  A run of the integrator: calls one after the other on the same store, each with its
  time and the address of its state vector.
\<close>

fun evaluations ::
  "quat_check \<Rightarrow> (npfloat \<times> addr) list \<Rightarrow> (store, (error + npfloat list) list) state" where
  "evaluations chk [] = State_Monad.return []"
| "evaluations chk (a # as) = do {
     r \<leftarrow> compute_derivatives_st chk (fst a) (snd a);
     rs \<leftarrow> evaluations chk as;
     State_Monad.return (r # rs)
   }"

text \<open>
  The object of the value-level methods, read off the store; and what it means that
  a call leaves everything it found as it was: the two instances are the same, and
  every array that existed is still there with the same contents.
\<close>

definition eom_of :: "store \<Rightarrow> EOM" where
  "eom_of h =
     \<lparr> environment =
         \<lparr> air_density = obj_air_density (environment_obj h),
           g = obj_g (environment_obj h),
           grav_vector = vec3_of (ndarrays h ! obj_grav_vector (environment_obj h)) \<rparr>,
       model = model_obj h \<rparr>"

definition unchanged :: "store \<Rightarrow> store \<Rightarrow> bool" where
  "unchanged h h' \<longleftrightarrow>
     environment_obj h' = environment_obj h \<and> model_obj h' = model_obj h \<and>
     length (ndarrays h) \<le> length (ndarrays h') \<and>
     take (length (ndarrays h)) (ndarrays h') = ndarrays h"

section \<open>A concrete flight state\<close>

text \<open>
  A disc moving at 10 m/s along x, level, spinning at 50 rad/s about its axis, with
  constant lift and drag coefficients and no side force, moments or damping.
\<close>

definition scenario_environment :: Environment where
  "scenario_environment =
     \<lparr> air_density = Fin 1.225, g = Fin 9.81, grav_vector = (Fin 0, Fin 0, Fin (- 1)) \<rparr>"

definition scenario_model :: Model where
  "scenario_model =
     \<lparr> mass = Fin 0.175, area = Fin 0.058, diameter = Fin 0.27,
       I_xx = Fin 0.002, I_zz = Fin 0.004,
       dampening_factor = Fin 0, dampening_z = Fin 0,
       C_lift = (\<lambda>aoa. Fin 0.3), C_drag = (\<lambda>aoa. Fin 0.1),
       C_side = (\<lambda>aoa v spin. Fin 0), C_x = (\<lambda>aoa v spin. Fin 0),
       C_y = (\<lambda>aoa. Fin 0) \<rparr>"

definition scenario_eom :: EOM where
  "scenario_eom = \<lparr> environment = scenario_environment, model = scenario_model \<rparr>"

definition scenario_state :: "npfloat list" where
  "scenario_state =
     [Fin 0, Fin 0, Fin 1, Fin 10, Fin 0, Fin 0, Fin 0, Fin 0, Fin 0, Fin 1,
      Fin 0, Fin 0, Fin 50]"

text \<open>
  The first flight with every aerodynamic coefficient, both damping coefficients and
  the gravity magnitude set to zero.
\<close>

definition coasting_eom :: EOM where
  "coasting_eom =
     \<lparr> environment =
         \<lparr> air_density = Fin 1.225, g = Fin 0, grav_vector = (Fin 0, Fin 0, Fin (- 1)) \<rparr>,
       model =
         \<lparr> mass = Fin 0.175, area = Fin 0.058, diameter = Fin 0.27,
           I_xx = Fin 0.002, I_zz = Fin 0.004,
           dampening_factor = Fin 0, dampening_z = Fin 0,
           C_lift = (\<lambda>aoa. Fin 0), C_drag = (\<lambda>aoa. Fin 0),
           C_side = (\<lambda>aoa speed spin. Fin 0), C_x = (\<lambda>aoa speed spin. Fin 0),
           C_y = (\<lambda>aoa. Fin 0) \<rparr> \<rparr>"

text \<open>
  Degenerate states of the first flight: no spin; a quaternion of norm zero; no
  velocity; the level disc falling along its normal; and a velocity almost along the
  disc normal, with an in-plane part of \<open>2 / 10^9\<close> against a speed of \<open>1 + 1 / 10^18\<close>.
\<close>

definition zero_spin_state :: "npfloat list" where
  "zero_spin_state =
     [Fin 0, Fin 0, Fin 1, Fin 10, Fin 0, Fin 0, Fin 0, Fin 0, Fin 0, Fin 1,
      Fin 0, Fin 0, Fin 0]"

definition zero_quaternion_state :: "npfloat list" where
  "zero_quaternion_state =
     [Fin 0, Fin 0, Fin 1, Fin 10, Fin 0, Fin 0, Fin 0, Fin 0, Fin 0, Fin 0,
      Fin 0, Fin 0, Fin 50]"

definition zero_velocity_state :: "npfloat list" where
  "zero_velocity_state =
     [Fin 0, Fin 0, Fin 1, Fin 0, Fin 0, Fin 0, Fin 0, Fin 0, Fin 0, Fin 1,
      Fin 0, Fin 0, Fin 50]"

definition falling_state :: "npfloat list" where
  "falling_state =
     [Fin 0, Fin 0, Fin 1, Fin 0, Fin 0, Fin (- 5), Fin 0, Fin 0, Fin 0, Fin 1,
      Fin 0, Fin 0, Fin 50]"

definition near_parallel_state :: "npfloat list" where
  "near_parallel_state =
     [Fin 0, Fin 0, Fin 1, Fin (2 / 10 ^ 9), Fin 0, Fin (1 - 1 / 10 ^ 18),
      Fin 0, Fin 0, Fin 0, Fin 1, Fin 0, Fin 0, Fin 50]"

text \<open>
  The first flight with a wobble of \<open>1 / 10^12\<close> rad/s about the first axis.
\<close>

definition slow_wobble_state :: "npfloat list" where
  "slow_wobble_state =
     [Fin 0, Fin 0, Fin 1, Fin 10, Fin 0, Fin 0, Fin 0, Fin 0, Fin 0, Fin 1,
      Fin (1 / 10 ^ 12), Fin 0, Fin 50]"

text \<open>
  A store for the first flight: the state vector at address 0, the gravity vector of
  the environment at address 1.
\<close>

definition scenario_store :: store where
  "scenario_store =
     \<lparr> ndarrays = [scenario_state, [Fin 0, Fin 0, Fin (- 1)]],
       environment_obj =
         \<lparr> obj_air_density = Fin 1.225, obj_g = Fin 9.81, obj_grav_vector = 1 \<rparr>,
       model_obj = scenario_model \<rparr>"

section \<open>Arithmetic on finite and special values\<close>

lemma Fin_add [simp]: "Fin a + Fin b = Fin (a + b)"
  by (simp add: plus_npfloat_def)

lemma Fin_sub [simp]: "Fin a - Fin b = Fin (a - b)"
  by (simp add: minus_npfloat_def)

lemma Fin_neg [simp]: "- Fin a = Fin (- a)"
  by (simp add: uminus_npfloat_def)

lemma Fin_mul [simp]: "Fin a * Fin b = Fin (a * b)"
  by (simp add: times_npfloat_def)

lemma Fin_div [simp]: "b \<noteq> 0 \<Longrightarrow> Fin a / Fin b = Fin (a / b)"
  by (simp add: divide_npfloat_def)

lemma NaN_arith [simp]:
  "NaN + a = NaN" "a + NaN = NaN" "NaN - a = NaN" "a - NaN = NaN"
  "NaN * a = NaN" "a * NaN = NaN" "NaN / a = NaN" "a / NaN = NaN" "- NaN = NaN"
  by (cases a; simp add: plus_npfloat_def minus_npfloat_def times_npfloat_def
        divide_npfloat_def uminus_npfloat_def)+

lemma np_add_commute: "(a::npfloat) + b = b + a"
  by (cases a; cases b; simp add: plus_npfloat_def)

lemma np_add_assoc: "((a::npfloat) + b) + c = a + (b + c)"
  by (cases a; cases b; cases c; simp add: plus_npfloat_def)

lemma isclose_zero_iff: "isclose (Fin 0) n \<longleftrightarrow> n = Fin 0"
  by (cases n) (auto simp: rel_tol_def abs_tol_def abs_mult)

lemma sqrt_100 [simp]: "sqrt 100 = 10"
  by (rule real_sqrt_unique) simp_all

lemma from_quat_identity [simp]:
  "from_quat chk (Fin 0, Fin 0, Fin 0, Fin 1) = Inr (Fin 0, Fin 0, Fin 0, Fin 1)"
  by (simp add: from_quat_def norm4_def)

lemma scenario_intermediate:
  "calculate_intermediate_quantities (Fin 0, Fin 0, Fin 0, Fin 1) (Fin 10, Fin 0, Fin 0)
     (Fin dphi, Fin dtheta, Fin dgamma)
   = \<lparr> unit_vectors = \<lparr> xhat = (Fin 1, Fin 0, Fin 0), yhat = (Fin 0, Fin 1, Fin 0),
                             zhat = (Fin 0, Fin 0, Fin 1) \<rparr>,
       angle_of_attack = Fin 0, res_w = (Fin dphi, Fin dtheta, Fin 0) \<rparr>"
  by (simp add: calculate_intermediate_quantities_def zhat_of_def v_dot_zhat_of_def
        v_in_plane_of_def norm3_def Let_def)

lemma scenario_forces:
  "compute_forces scenario_eom (Fin 0, Fin 0, Fin 0, Fin 1) (Fin 10, Fin 0, Fin 0)
     (Fin dphi, Fin dtheta, Fin dgamma)
   = \<lparr> unit_vectors = \<lparr> xhat = (Fin 1, Fin 0, Fin 0), yhat = (Fin 0, Fin 1, Fin 0),
                             zhat = (Fin 0, Fin 0, Fin 1) \<rparr>,
       angle_of_attack = Fin 0, res_w = (Fin dphi, Fin dtheta, Fin 0),
       F_lift = (Fin 0, Fin 0, Fin 1.06575), F_side = (Fin 0, Fin 0, Fin 0),
       F_drag = (Fin (- 0.35525), Fin 0, Fin 0), F_grav = (Fin 0, Fin 0, Fin (- 1.71675)),
       F_total = (Fin (- 0.35525), Fin 0, Fin (- 0.651)),
       Acc = (Fin (- 2.03), Fin 0, Fin (- 3.72)) \<rparr>"
  by (simp add: compute_forces_def scenario_intermediate norm3_def scenario_eom_def Let_def
        scenario_model_def scenario_environment_def)

lemma scenario_torque_amplitude:
  "torque_amplitude_of scenario_eom (Fin 10, Fin 0, Fin 0) = Fin 0.959175"
  by (simp add: torque_amplitude_of_def scenario_eom_def scenario_model_def
        scenario_environment_def)

lemma scenario_combined_w:
  "dgamma \<noteq> 0 \<Longrightarrow>
   combined_w scenario_eom (Fin 10, Fin 0, Fin 0) (Fin dphi, Fin dtheta, Fin dgamma)
     (compute_forces scenario_eom (Fin 0, Fin 0, Fin 0, Fin 1) (Fin 10, Fin 0, Fin 0)
        (Fin dphi, Fin dtheta, Fin dgamma))
   = (Fin dphi, Fin dtheta, Fin 0)"
  by (simp add: combined_w_def roll_def pitch_up_def scenario_forces
        scenario_torque_amplitude Let_def)
     (simp add: scenario_eom_def scenario_model_def)

lemma quaternion_rate_zero:
  "quaternion_rate chk rotation (Fin 0, Fin 0, Fin 0) = Inr (Fin 0, Fin 0, Fin 0, Fin 0)"
  by (simp add: quaternion_rate_def norm3_def isclose_zero_iff as_quat_def Let_def)

lemma scenario_wobble_precession:
  "compute_wobble_precession scenario_eom (Fin dphi, Fin dtheta, Fin dgamma) (Fin tq)
   = Inr (Fin (- (2 * dgamma * dtheta)), Fin (2 * dgamma * dphi), Fin 0)"
  by (simp add: compute_wobble_precession_def scenario_eom_def scenario_model_def Let_def)

lemma scenario_derivatives:
  "compute_derivatives chk scenario_eom t scenario_state
   = Inr [Fin 10, Fin 0, Fin 0, Fin (- 2.03), Fin 0, Fin (- 3.72),
          Fin 0, Fin 0, Fin 0, Fin 0, Fin 0, Fin 0, Fin 0]"
  by (simp add: compute_derivatives_def scenario_state_def compute_torques_def
        scenario_combined_w quaternion_rate_zero scenario_torque_amplitude
        scenario_wobble_precession Let_def)
     (simp add: scenario_forces)


section \<open>The entry point: layout\<close>

text \<open>
  C8: whenever the entry point accepts a state, the state has thirteen components and
  so has the result: the three velocity components of the state, copied, then the
  linear acceleration of the force computation, then the four components of the
  quaternion derivative, then the three components of the angular acceleration.
\<close>

theorem derivative_layout:
  assumes "compute_derivatives chk self t s = Inr d"
  shows "length s = 13 \<and> length d = 13 \<and>
    (\<exists>rotation dq' T.
       from_quat chk (s ! 6, s ! 7, s ! 8, s ! 9) = Inr rotation \<and>
       quaternion_rate chk rotation
         (combined_w self (s ! 3, s ! 4, s ! 5) (s ! 10, s ! 11, s ! 12)
            (compute_forces self rotation (s ! 3, s ! 4, s ! 5) (s ! 10, s ! 11, s ! 12)))
         = Inr dq' \<and>
       compute_wobble_precession self (s ! 10, s ! 11, s ! 12)
         (torque_amplitude_of self (s ! 3, s ! 4, s ! 5)) = Inr T \<and>
       d = [s ! 3, s ! 4, s ! 5]
           @ vec3_list (Acc (compute_forces self rotation (s ! 3, s ! 4, s ! 5)
                               (s ! 10, s ! 11, s ! 12)))
           @ vec4_list dq'
           @ vec3_list T)"
proof -
  from assms have len: "length s = 13"
    by (auto simp: compute_derivatives_def split: if_splits)
  from assms len obtain rotation where
    rot: "from_quat chk (s ! 6, s ! 7, s ! 8, s ! 9) = Inr rotation"
    by (auto simp: compute_derivatives_def Let_def split: sum.splits)
  from assms len rot obtain dq' where
    rate: "quaternion_rate chk rotation
         (combined_w self (s ! 3, s ! 4, s ! 5) (s ! 10, s ! 11, s ! 12)
            (compute_forces self rotation (s ! 3, s ! 4, s ! 5) (s ! 10, s ! 11, s ! 12)))
         = Inr dq'"
    by (auto simp: compute_derivatives_def compute_torques_def Let_def split: sum.splits)
  from assms len rot rate obtain T where
    wob: "compute_wobble_precession self (s ! 10, s ! 11, s ! 12)
            (torque_amplitude_of self (s ! 3, s ! 4, s ! 5)) = Inr T"
    by (auto simp: compute_derivatives_def compute_torques_def Let_def split: sum.splits)
  from assms len rot rate wob have
    "d = [s ! 3, s ! 4, s ! 5]
           @ vec3_list (Acc (compute_forces self rotation (s ! 3, s ! 4, s ! 5)
                               (s ! 10, s ! 11, s ! 12)))
           @ vec4_list dq'
           @ vec3_list T"
    by (auto simp: compute_derivatives_def compute_torques_def Let_def vec3_list_def
          vec4_list_def)
  with len rot rate wob show ?thesis
    by (auto simp: vec3_list_def vec4_list_def)
qed

theorem derivative_layout_witness:
  "compute_derivatives ZeroOnly scenario_eom (Fin 0) scenario_state
     = Inr [Fin 10, Fin 0, Fin 0, Fin (- 2.03), Fin 0, Fin (- 3.72),
            Fin 0, Fin 0, Fin 0, Fin 0, Fin 0, Fin 0, Fin 0] \<and>
   length scenario_state = 13 \<and>
   length [Fin 10, Fin 0, Fin 0, Fin (- 2.03), Fin 0, Fin (- 3.72),
           Fin 0, Fin 0, Fin 0, Fin 0, Fin 0, Fin 0, Fin (0::real)] = 13"
  using derivative_layout [OF scenario_derivatives [of ZeroOnly "Fin 0"]]
    scenario_derivatives [of ZeroOnly "Fin 0"]
  by simp

section \<open>The entry point on the store\<close>

lemma vec3_of_list [simp]: "vec3_of (vec3_list v) = v"
  by (cases v rule: prod_cases3) (simp add: vec3_of_def vec3_list_def)

lemma map2_vec3_list [simp]:
  "map2 (+) (vec3_list a) (vec3_list b) = vec3_list (vadd a b)"
  by (cases a rule: prod_cases3; cases b rule: prod_cases3) (simp add: vec3_list_def)

text \<open>
  Each method on the store returns what the method on values returns for the object
  read off the store, and leaves a store that has grown by the arrays it created.
\<close>

lemma compute_forces_store:
  "run_state (compute_forces_st rotation velocity ang_velocity) h
   = (compute_forces (eom_of h) rotation velocity ang_velocity, h)"
  by (simp add: compute_forces_st_def compute_forces_def eom_of_def self_environment_def
        self_model_def array_values_def Let_def)

lemma compute_wobble_precession_store:
  "\<exists>a. run_state (compute_wobble_precession_st ang_velocity torque) h
        = (compute_wobble_precession (eom_of h) ang_velocity torque,
           h\<lparr>ndarrays := ndarrays h @ [a]\<rparr>)"
proof (cases "I_xx (model_obj h) = Fin 0")
  case True
  then show ?thesis
    by (intro exI)
       (simp add: compute_wobble_precession_st_def compute_wobble_precession_def eom_of_def
          self_model_def np_array_def Let_def)
next
  case False
  then show ?thesis
    by (intro exI)
       (simp add: compute_wobble_precession_st_def compute_wobble_precession_def eom_of_def
          self_model_def np_array_def array_iadd_def array_values_def Let_def)
qed

lemma compute_wobble_precession_model:
  "model a = model b \<Longrightarrow>
   compute_wobble_precession a ang_velocity torque
   = compute_wobble_precession b ang_velocity torque"
  by (simp add: compute_wobble_precession_def)

lemma torque_amplitude_of_store:
  "torque_amplitude_of (eom_of h) velocity
   = Fin (1 / 2) * obj_air_density (environment_obj h) * dot3 velocity velocity
       * diameter (model_obj h) * area (model_obj h)"
  by (simp add: torque_amplitude_of_def eom_of_def)

lemma combined_w_store:
  "combined_w (eom_of h) velocity ang_velocity res
   = vadd (vdiv (vadd
        (smul (C_y (model_obj h) (angle_of_attack res) * torque_amplitude_of (eom_of h) velocity)
           (xhat (unit_vectors res)))
        (smul (C_x (model_obj h) (angle_of_attack res) (norm3 velocity) (idx2 ang_velocity)
                 * torque_amplitude_of (eom_of h) velocity)
           (yhat (unit_vectors res))))
        (I_zz (model_obj h) * idx2 ang_velocity)) (res_w res)"
  by (simp add: combined_w_def roll_def pitch_up_def Let_def) (simp add: eom_of_def)

lemma compute_torques_store:
  "\<exists>ext. run_state (compute_torques_st chk velocity ang_velocity rotation res) h
        = (compute_torques chk (eom_of h) velocity ang_velocity rotation res,
           h\<lparr>ndarrays := ndarrays h @ ext\<rparr>)"
proof -
  let ?w = "combined_w (eom_of h) velocity ang_velocity res"
  let ?tq = "torque_amplitude_of (eom_of h) velocity"
  let ?h1 = "h\<lparr>ndarrays := ndarrays h @ [vec3_list ?w]\<rparr>"
  obtain a where wob: "run_state (compute_wobble_precession_st ang_velocity ?tq) ?h1
        = (compute_wobble_precession (eom_of ?h1) ang_velocity ?tq,
           ?h1\<lparr>ndarrays := ndarrays ?h1 @ [a]\<rparr>)"
    using compute_wobble_precession_store [of ang_velocity ?tq ?h1] by blast
  have same: "compute_wobble_precession (eom_of ?h1) ang_velocity ?tq
              = compute_wobble_precession (eom_of h) ang_velocity ?tq"
    by (rule compute_wobble_precession_model) (simp add: eom_of_def)
  note wob' = wob [unfolded same]
  show ?thesis
  proof (cases "quaternion_rate chk rotation ?w")
    case (Inl e)
    show ?thesis
      using Inl unfolding combined_w_store torque_amplitude_of_store
      by (intro exI [of _ "[vec3_list ?w]"])
         (simp add: compute_torques_st_def self_environment_def self_model_def np_array_def
            array_iadd_def array_values_def Let_def compute_torques_def
            combined_w_store torque_amplitude_of_store)
  next
    case (Inr dq')
    show ?thesis
      using Inr wob' unfolding combined_w_store torque_amplitude_of_store
      by (intro exI [of _ "[vec3_list ?w, a]"])
         (simp add: compute_torques_st_def self_environment_def self_model_def np_array_def
            array_iadd_def array_values_def Let_def compute_torques_def
            combined_w_store torque_amplitude_of_store split: sum.splits)
  qed
qed

lemma compute_derivatives_store:
  "\<exists>ext. run_state (compute_derivatives_st chk t c) h
        = (compute_derivatives chk (eom_of h) t (ndarrays h ! c),
           h\<lparr>ndarrays := ndarrays h @ ext\<rparr>)"
proof (cases "length (ndarrays h ! c) \<noteq> 13")
  case True
  then show ?thesis
    by (intro exI [of _ "[]"])
       (simp add: compute_derivatives_st_def compute_derivatives_def array_values_def)
next
  case False
  let ?s = "ndarrays h ! c"
  show ?thesis
  proof (cases "from_quat chk (?s ! 6, ?s ! 7, ?s ! 8, ?s ! 9)")
    case (Inl e)
    with False show ?thesis
      by (intro exI [of _ "[]"])
         (simp add: compute_derivatives_st_def compute_derivatives_def array_values_def Let_def)
  next
    case (Inr rotation)
    obtain ext where tq: "run_state (compute_torques_st chk (?s ! 3, ?s ! 4, ?s ! 5)
          (?s ! 10, ?s ! 11, ?s ! 12) rotation
          (compute_forces (eom_of h) rotation (?s ! 3, ?s ! 4, ?s ! 5)
             (?s ! 10, ?s ! 11, ?s ! 12))) h
        = (compute_torques chk (eom_of h) (?s ! 3, ?s ! 4, ?s ! 5)
             (?s ! 10, ?s ! 11, ?s ! 12) rotation
             (compute_forces (eom_of h) rotation (?s ! 3, ?s ! 4, ?s ! 5)
                (?s ! 10, ?s ! 11, ?s ! 12)),
           h\<lparr>ndarrays := ndarrays h @ ext\<rparr>)"
      using compute_torques_store by blast
    from False Inr show ?thesis
      by (intro exI [of _ ext])
         (simp add: compute_derivatives_st_def compute_derivatives_def array_values_def Let_def
            compute_forces_store tq split: sum.splits)
  qed
qed

text \<open>Stores that have only grown.\<close>

lemma unchanged_refl: "unchanged h h"
  by (simp add: unchanged_def)

lemma unchanged_trans: "unchanged h h' \<Longrightarrow> unchanged h' h'' \<Longrightarrow> unchanged h h''"
proof -
  assume a: "unchanged h h'" and b: "unchanged h' h''"
  have "take (length (ndarrays h)) (ndarrays h'')
        = take (length (ndarrays h)) (take (length (ndarrays h')) (ndarrays h''))"
    using a by (simp add: unchanged_def min_def)
  with a b show ?thesis
    by (simp add: unchanged_def)
qed

lemma unchanged_extended: "unchanged h (h\<lparr>ndarrays := ndarrays h @ ext\<rparr>)"
  by (simp add: unchanged_def)

lemma unchanged_array:
  "unchanged h h' \<Longrightarrow> a < length (ndarrays h) \<Longrightarrow> ndarrays h' ! a = ndarrays h ! a"
  by (metis nth_take unchanged_def)

lemma unchanged_eom_of:
  "unchanged h h' \<Longrightarrow> obj_grav_vector (environment_obj h) < length (ndarrays h) \<Longrightarrow>
   eom_of h' = eom_of h"
  using unchanged_array [of h h' "obj_grav_vector (environment_obj h)"]
  by (simp add: eom_of_def unchanged_def)

lemma compute_derivatives_unchanged:
  "unchanged h (snd (run_state (compute_derivatives_st chk t c) h))"
  using compute_derivatives_store [of chk t c h] by (auto simp: unchanged_extended)

lemma evaluations_unchanged:
  "unchanged h (snd (run_state (evaluations chk history) h))"
proof (induction history arbitrary: h)
  case Nil
  show ?case by (simp add: unchanged_refl)
next
  case (Cons a history)
  let ?h1 = "snd (run_state (compute_derivatives_st chk (fst a) (snd a)) h)"
  have "unchanged h ?h1"
    by (rule compute_derivatives_unchanged)
  moreover have "unchanged ?h1 (snd (run_state (evaluations chk history) ?h1))"
    by (rule Cons.IH)
  ultimately have "unchanged h (snd (run_state (evaluations chk history) ?h1))"
    by (rule unchanged_trans)
  then show ?case
    by (simp add: split_beta)
qed

lemma compute_derivatives_value:
  "fst (run_state (compute_derivatives_st chk t c) h)
   = compute_derivatives chk (eom_of h) t (ndarrays h ! c)"
  using compute_derivatives_store [of chk t c h] by auto

lemma time_unused:
  "compute_derivatives chk self t1 s = compute_derivatives chk self t2 s"
  by (simp add: compute_derivatives_def)

text \<open>
  C9: on a store that holds the state vector and the gravity vector, an evaluation
  returns what the value-level entry point returns for the state, the Environment and
  the Model read off the store, so it is a function of these three; the result is the
  same at any time argument; the evaluation, and any sequence of evaluations at any
  times and states, leaves both instances and every array that existed as they were;
  and an evaluation made after the first one, or after any such sequence, at another
  time, returns what the first returned. (The coefficient functions of the Model are
  taken to be functions of their arguments.)
\<close>

theorem derivative_is_pure:
  assumes state: "c < length (ndarrays h)"
    and grav: "obj_grav_vector (environment_obj h) < length (ndarrays h)"
  shows "fst (run_state (compute_derivatives_st chk t1 c) h)
           = compute_derivatives chk (eom_of h) t1 (ndarrays h ! c) \<and>
         fst (run_state (compute_derivatives_st chk t2 c) h)
           = fst (run_state (compute_derivatives_st chk t1 c) h) \<and>
         unchanged h (snd (run_state (compute_derivatives_st chk t1 c) h)) \<and>
         unchanged h (snd (run_state (evaluations chk history) h)) \<and>
         fst (run_state (compute_derivatives_st chk t2 c)
                (snd (run_state (compute_derivatives_st chk t1 c) h)))
           = fst (run_state (compute_derivatives_st chk t1 c) h) \<and>
         fst (run_state (compute_derivatives_st chk t2 c)
                (snd (run_state (evaluations chk history) h)))
           = fst (run_state (compute_derivatives_st chk t1 c) h)"
proof -
  have later: "fst (run_state (compute_derivatives_st chk t2 c) h')
               = fst (run_state (compute_derivatives_st chk t1 c) h)"
    if "unchanged h h'" for h'
    using unchanged_array [OF that state] unchanged_eom_of [OF that grav]
    by (simp add: compute_derivatives_value time_unused [of chk _ t2 _ t1])
  from compute_derivatives_value [of chk t1 c h] later [OF unchanged_refl]
    compute_derivatives_unchanged [of h chk t1 c] evaluations_unchanged [of h chk history]
    later [OF compute_derivatives_unchanged [of h chk t1 c]]
    later [OF evaluations_unchanged [of h chk history]]
  show ?thesis
    by (intro conjI)
qed

lemma scenario_store_eom: "eom_of scenario_store = scenario_eom"
  by (simp add: eom_of_def scenario_store_def scenario_eom_def scenario_environment_def
        vec3_of_def)

theorem derivative_is_pure_witness:
  "fst (run_state (compute_derivatives_st ZeroOnly (Fin 0) 0) scenario_store)
     = Inr [Fin 10, Fin 0, Fin 0, Fin (- 2.03), Fin 0, Fin (- 3.72),
            Fin 0, Fin 0, Fin 0, Fin 0, Fin 0, Fin 0, Fin 0] \<and>
   fst (run_state (compute_derivatives_st ZeroOnly (Fin 7) 0) scenario_store)
     = fst (run_state (compute_derivatives_st ZeroOnly (Fin 0) 0) scenario_store) \<and>
   unchanged scenario_store
     (snd (run_state (compute_derivatives_st ZeroOnly (Fin 0) 0) scenario_store)) \<and>
   unchanged scenario_store
     (snd (run_state (evaluations ZeroOnly [(Fin 3, 0), (Fin 1, 1)]) scenario_store)) \<and>
   fst (run_state (compute_derivatives_st ZeroOnly (Fin 7) 0)
          (snd (run_state (compute_derivatives_st ZeroOnly (Fin 0) 0) scenario_store)))
     = fst (run_state (compute_derivatives_st ZeroOnly (Fin 0) 0) scenario_store) \<and>
   fst (run_state (compute_derivatives_st ZeroOnly (Fin 7) 0)
          (snd (run_state (evaluations ZeroOnly [(Fin 3, 0), (Fin 1, 1)]) scenario_store)))
     = fst (run_state (compute_derivatives_st ZeroOnly (Fin 0) 0) scenario_store)"
proof -
  have state: "0 < length (ndarrays scenario_store)"
    and grav: "obj_grav_vector (environment_obj scenario_store)
               < length (ndarrays scenario_store)"
    by (simp_all add: scenario_store_def)
  have s: "ndarrays scenario_store ! 0 = scenario_state"
    by (simp add: scenario_store_def)
  have val: "compute_derivatives ZeroOnly (eom_of scenario_store) (Fin 0)
               (ndarrays scenario_store ! 0)
             = Inr [Fin 10, Fin 0, Fin 0, Fin (- 2.03), Fin 0, Fin (- 3.72),
                    Fin 0, Fin 0, Fin 0, Fin 0, Fin 0, Fin 0, Fin 0]"
    by (simp only: scenario_store_eom s scenario_derivatives)
  note all = derivative_is_pure [OF state grav, of ZeroOnly "Fin 0" "Fin 7"
      "[(Fin 3, 0), (Fin 1, 1)]"]
  from all have first:
    "fst (run_state (compute_derivatives_st ZeroOnly (Fin 0) 0) scenario_store)
     = Inr [Fin 10, Fin 0, Fin 0, Fin (- 2.03), Fin 0, Fin (- 3.72),
            Fin 0, Fin 0, Fin 0, Fin 0, Fin 0, Fin 0, Fin 0]"
    by (elim conjE) (simp only: val)
  from first all show ?thesis
    by (elim conjE) (intro conjI, assumption+)
qed

section \<open>Finite arrays\<close>

lemma np_sqrt_Fin [simp]: "0 \<le> a \<Longrightarrow> np_sqrt (Fin a) = Fin (sqrt a)"
  by simp

lemma dot3_lift [simp]: "dot3 (lift3 u) (lift3 v) = Fin (dot3 u v)"
  by (cases u rule: prod_cases3; cases v rule: prod_cases3) simp

lemma cross_lift [simp]: "cross (lift3 u) (lift3 v) = lift3 (cross u v)"
  by (cases u rule: prod_cases3; cases v rule: prod_cases3) simp

lemma smul_lift [simp]: "smul (Fin s) (lift3 v) = lift3 (smul s v)"
  by (cases v rule: prod_cases3) simp

lemma vmul_lift [simp]: "vmul (lift3 v) (Fin s) = lift3 (vmul v s)"
  by (cases v rule: prod_cases3) simp

lemma vdiv_lift [simp]: "s \<noteq> 0 \<Longrightarrow> vdiv (lift3 v) (Fin s) = lift3 (vdiv v s)"
  by (cases v rule: prod_cases3) simp

lemma vadd_lift [simp]: "vadd (lift3 u) (lift3 v) = lift3 (vadd u v)"
  by (cases u rule: prod_cases3; cases v rule: prod_cases3) simp

lemma vsub_lift [simp]: "vsub (lift3 u) (lift3 v) = lift3 (vsub u v)"
  by (cases u rule: prod_cases3; cases v rule: prod_cases3) simp

lemma vneg_lift [simp]: "vneg (lift3 v) = lift3 (vneg v)"
  by (cases v rule: prod_cases3) simp

lemma lift3_eq_iff [simp]: "lift3 u = lift3 v \<longleftrightarrow> u = v"
  by (cases u rule: prod_cases3; cases v rule: prod_cases3) simp

lemma lift3_zero_iff: "lift3 v = (Fin 0, Fin 0, Fin 0) \<longleftrightarrow> v = (0, 0, 0)"
  by (cases v rule: prod_cases3) simp

lemma dot3_self_nonneg: "0 \<le> dot3 v (v :: real vec3)"
  by (cases v rule: prod_cases3) simp

lemma dot3_self_zero_iff: "dot3 v v = 0 \<longleftrightarrow> v = (0, 0, 0 :: real)"
  by (cases v rule: prod_cases3) (auto simp: add_nonneg_eq_0_iff)

lemma norm3_lift [simp]: "norm3 (lift3 v) = Fin (sqrt (dot3 v v))"
  by (simp add: norm3_def dot3_self_nonneg linorder_not_less)

lemma zhat_of_finite:
  "zhat_of (Fin x, Fin y, Fin z, Fin w)
   = lift3 (2 * (x * z + y * w), 2 * (y * z - x * w), - (x * x) - y * y + z * z + w * w)"
  by (simp add: zhat_of_def Let_def)

section \<open>Vector algebra on the reals\<close>

lemma dot3_commute: "dot3 u v = dot3 v (u :: real vec3)"
  by (cases u rule: prod_cases3; cases v rule: prod_cases3) simp

lemma dot3_vsub_left: "dot3 (vsub a b) c = dot3 a c - dot3 b (c :: real vec3)"
  by (cases a rule: prod_cases3; cases b rule: prod_cases3; cases c rule: prod_cases3)
     (simp add: algebra_simps)

lemma dot3_vmul_left: "dot3 (vmul a s) c = s * dot3 a (c :: real vec3)"
  by (cases a rule: prod_cases3; cases c rule: prod_cases3) (simp add: algebra_simps)

lemma dot3_vdiv_left: "dot3 (vdiv a s) c = dot3 a (c :: real vec3) / s"
  by (cases a rule: prod_cases3; cases c rule: prod_cases3) (simp add: add_divide_distrib)

lemma dot3_vdiv_right: "dot3 c (vdiv a s) = dot3 c (a :: real vec3) / s"
  by (cases a rule: prod_cases3; cases c rule: prod_cases3) (simp add: add_divide_distrib)

lemma dot3_cross_left: "dot3 (cross a b) a = (0 :: real)"
  by (cases a rule: prod_cases3; cases b rule: prod_cases3) (simp add: algebra_simps)

lemma dot3_cross_right: "dot3 (cross a b) b = (0 :: real)"
  by (cases a rule: prod_cases3; cases b rule: prod_cases3) (simp add: algebra_simps)

lemma dot3_cross_cross:
  "dot3 (cross a b) (cross a b) = dot3 a a * dot3 b b - (dot3 a b)\<^sup>2" for a b :: "real vec3"
  by (cases a rule: prod_cases3; cases b rule: prod_cases3)
     (simp add: power2_eq_square algebra_simps)

lemma unit_quaternion_zhat:
  fixes x y z w :: real
  assumes "x * x + y * y + z * z + w * w = 1"
  shows "dot3 (2 * (x * z + y * w), 2 * (y * z - x * w), - (x * x) - y * y + z * z + w * w)
              (2 * (x * z + y * w), 2 * (y * z - x * w), - (x * x) - y * y + z * z + w * w) = 1"
proof -
  have "dot3 (2 * (x * z + y * w), 2 * (y * z - x * w), - (x * x) - y * y + z * z + w * w)
              (2 * (x * z + y * w), 2 * (y * z - x * w), - (x * x) - y * y + z * z + w * w)
        = (x * x + y * y + z * z + w * w) * (x * x + y * y + z * z + w * w)"
    by (simp add: algebra_simps)
  with assms show ?thesis by simp
qed

section \<open>The resolver on finite inputs\<close>

text \<open>
  With a finite disc normal and a finite velocity whose in-plane part is not zero, the
  resolver divides by a positive norm and every result is finite.
\<close>

lemma resolver_finite:
  assumes zh: "zhat_of rotation = lift3 zh"
    and nz: "vsub v (vmul zh (dot3 v zh)) \<noteq> (0, 0, 0)"
  shows "unit_vectors (calculate_intermediate_quantities rotation (lift3 v) ang_velocity)
         = \<lparr> xhat = lift3 (vdiv (vsub v (vmul zh (dot3 v zh)))
                              (sqrt (dot3 (vsub v (vmul zh (dot3 v zh)))
                                          (vsub v (vmul zh (dot3 v zh)))))),
             yhat = lift3 (cross zh (vdiv (vsub v (vmul zh (dot3 v zh)))
                              (sqrt (dot3 (vsub v (vmul zh (dot3 v zh)))
                                          (vsub v (vmul zh (dot3 v zh))))))),
             zhat = lift3 zh \<rparr>"
    and "angle_of_attack (calculate_intermediate_quantities rotation (lift3 v) ang_velocity)
         = Fin (- arctan (dot3 v zh / sqrt (dot3 (vsub v (vmul zh (dot3 v zh)))
                                                 (vsub v (vmul zh (dot3 v zh))))))"
proof -
  let ?vp = "vsub v (vmul zh (dot3 v zh))"
  have n: "sqrt (dot3 ?vp ?vp) \<noteq> 0"
    using nz by (simp add: dot3_self_zero_iff)
  have d: "v_dot_zhat_of rotation (lift3 v) = Fin (dot3 v zh)"
    by (simp add: v_dot_zhat_of_def zh)
  have vp: "v_in_plane_of rotation (lift3 v) = lift3 ?vp"
    by (simp add: v_in_plane_of_def d zh)
  show "unit_vectors (calculate_intermediate_quantities rotation (lift3 v) ang_velocity)
         = \<lparr> xhat = lift3 (vdiv ?vp (sqrt (dot3 ?vp ?vp))),
             yhat = lift3 (cross zh (vdiv ?vp (sqrt (dot3 ?vp ?vp)))),
             zhat = lift3 zh \<rparr>"
    using n by (simp add: calculate_intermediate_quantities_def Let_def vp zh)
  show "angle_of_attack (calculate_intermediate_quantities rotation (lift3 v) ang_velocity)
         = Fin (- arctan (dot3 v zh / sqrt (dot3 ?vp ?vp)))"
    using n by (simp add: calculate_intermediate_quantities_def Let_def vp d)
qed

lemma v_in_plane_of_finite:
  "zhat_of rotation = lift3 zh \<Longrightarrow>
   v_in_plane_of rotation (lift3 v) = lift3 (vsub v (vmul zh (dot3 v zh)))"
  by (simp add: v_in_plane_of_def v_dot_zhat_of_def)

text \<open>The algebra of the basis, on the reals.\<close>

lemma basis_orthonormal_real:
  fixes zh v :: "real vec3"
  assumes unit: "dot3 zh zh = 1"
    and nz: "vsub v (vmul zh (dot3 v zh)) \<noteq> (0, 0, 0)"
  defines "vp \<equiv> vsub v (vmul zh (dot3 v zh))"
  defines "xh \<equiv> vdiv vp (sqrt (dot3 vp vp))"
  defines "yh \<equiv> cross zh xh"
  shows "dot3 xh xh = 1" "dot3 yh yh = 1" "dot3 xh yh = 0" "dot3 xh zh = 0" "dot3 yh zh = 0"
proof -
  have pos: "0 < dot3 vp vp"
    using nz dot3_self_nonneg [of vp] dot3_self_zero_iff [of vp] by (simp add: vp_def)
  have vz: "dot3 vp zh = 0"
    by (simp add: vp_def dot3_vsub_left dot3_vmul_left unit)
  show xx: "dot3 xh xh = 1"
    using pos by (simp add: xh_def dot3_vdiv_left dot3_vdiv_right)
  show xz: "dot3 xh zh = 0"
    by (simp add: xh_def dot3_vdiv_left vz)
  have zx: "dot3 zh xh = 0"
    using xz by (simp add: dot3_commute)
  show "dot3 yh yh = 1"
    by (simp add: yh_def dot3_cross_cross unit xx zx)
  show "dot3 xh yh = 0"
    by (simp add: yh_def dot3_commute [of xh] dot3_cross_right)
  show "dot3 yh zh = 0"
    by (simp add: yh_def dot3_cross_left)
qed

section \<open>The resolver: basis and angle of attack\<close>

text \<open>
  In exact arithmetic, for a unit quaternion and a finite velocity whose in-plane part
  is not zero, the three vectors the resolver returns have norm one and their pairwise
  dot products are zero. The code computes in doubles: there the subtraction of line
  212 cancels, and the basis is orthonormal only up to a rounding error that grows as
  the in-plane velocity shrinks against the speed. About that error this lemma says
  nothing.
\<close>

lemma resolver_basis_exact:
  fixes ang_velocity :: "npfloat vec3"
  assumes unit: "x * x + y * y + z * z + w * w = 1"
    and nz: "v_in_plane_of (Fin x, Fin y, Fin z, Fin w) (lift3 v) \<noteq> (Fin 0, Fin 0, Fin 0)"
  defines "uv \<equiv> unit_vectors
     (calculate_intermediate_quantities (Fin x, Fin y, Fin z, Fin w) (lift3 v) ang_velocity)"
  shows "norm3 (xhat uv) = Fin 1 \<and> norm3 (yhat uv) = Fin 1 \<and> norm3 (zhat uv) = Fin 1 \<and>
         dot3 (xhat uv) (yhat uv) = Fin 0 \<and> dot3 (xhat uv) (zhat uv) = Fin 0 \<and>
         dot3 (yhat uv) (zhat uv) = Fin 0"
proof -
  define zh where
    "zh = (2 * (x * z + y * w), 2 * (y * z - x * w), - (x * x) - y * y + z * z + w * w)"
  have zh: "zhat_of (Fin x, Fin y, Fin z, Fin w) = lift3 zh"
    by (simp add: zh_def zhat_of_finite)
  have zz: "dot3 zh zh = 1"
    unfolding zh_def by (rule unit_quaternion_zhat [OF unit])
  have nz': "vsub v (vmul zh (dot3 v zh)) \<noteq> (0, 0, 0)"
    using nz by (simp add: v_in_plane_of_finite [OF zh] lift3_zero_iff)
  note basis = basis_orthonormal_real [OF zz nz']
  have uv: "uv = \<lparr> xhat = lift3 (vdiv (vsub v (vmul zh (dot3 v zh)))
                              (sqrt (dot3 (vsub v (vmul zh (dot3 v zh)))
                                          (vsub v (vmul zh (dot3 v zh)))))),
             yhat = lift3 (cross zh (vdiv (vsub v (vmul zh (dot3 v zh)))
                              (sqrt (dot3 (vsub v (vmul zh (dot3 v zh)))
                                          (vsub v (vmul zh (dot3 v zh))))))),
             zhat = lift3 zh \<rparr>"
    unfolding uv_def by (rule resolver_finite(1) [OF zh nz'])
  show ?thesis
    by (simp add: uv basis zz)
qed

text \<open>
  The disc normal of the specification, the image of \<open>(0, 0, 1)\<close> under the rotation of
  the quaternion, is the vector the code multiplies out of the rotation matrix.
\<close>

lemma spec_zhat_eq:
  "spec_zhat (x, y, z, w)
   = (2 * (x * z + y * w), 2 * (y * z - x * w), - (x * x) - y * y + z * z + w * w)"
  by (simp add: spec_zhat_def rotate_vector_def quat_conj_def algebra_simps)

text \<open>
  C7: for a unit orientation quaternion \<open>q\<close> and a finite velocity \<open>v\<close> whose in-plane
  residual is not zero, the resolver's \<^verbatim>\<open>v_dot_zhat\<close> is the component of \<open>v\<close> along the
  disc normal, its \<^verbatim>\<open>v_in_plane\<close> the in-plane residual of \<open>v\<close>, and the angle of attack
  it returns is minus the arctangent of the component over the norm of the residual,
  with normal, component and residual as the specification defines them; and the
  angle of attack is exactly zero when \<^verbatim>\<open>v_dot_zhat\<close> is zero.
\<close>

theorem angle_of_attack_formula:
  fixes q :: "real vec4" and v :: "real vec3" and ang_velocity :: "npfloat vec3"
  assumes unit: "dot4 q q = 1"
    and nz: "spec_v_in_plane q v \<noteq> (0, 0, 0)"
  shows "v_dot_zhat_of (lift4 q) (lift3 v) = Fin (spec_v_dot_zhat q v) \<and>
         v_in_plane_of (lift4 q) (lift3 v) = lift3 (spec_v_in_plane q v) \<and>
         angle_of_attack (calculate_intermediate_quantities (lift4 q) (lift3 v) ang_velocity)
           = Fin (spec_angle_of_attack q v) \<and>
         (v_dot_zhat_of (lift4 q) (lift3 v) = Fin 0 \<longrightarrow>
            angle_of_attack (calculate_intermediate_quantities (lift4 q) (lift3 v) ang_velocity)
              = Fin 0)"
proof -
  obtain x y z w where q: "q = (x, y, z, w)"
    by (cases q rule: prod_cases4)
  let ?zh = "spec_zhat q"
  let ?vp = "vsub v (vmul ?zh (dot3 v ?zh))"
  have zh: "zhat_of (lift4 q) = lift3 ?zh"
    by (simp add: q zhat_of_finite spec_zhat_eq)
  have nz': "?vp \<noteq> (0, 0, 0)"
    using nz by (simp add: spec_v_in_plane_def spec_v_dot_zhat_def)
  have d: "v_dot_zhat_of (lift4 q) (lift3 v) = Fin (spec_v_dot_zhat q v)"
    by (simp add: v_dot_zhat_of_def zh spec_v_dot_zhat_def)
  have p: "v_in_plane_of (lift4 q) (lift3 v) = lift3 (spec_v_in_plane q v)"
    by (simp only: v_in_plane_of_finite [OF zh] spec_v_in_plane_def spec_v_dot_zhat_def)
  have aoa: "angle_of_attack (calculate_intermediate_quantities (lift4 q) (lift3 v) ang_velocity)
             = Fin (- arctan (dot3 v ?zh / sqrt (dot3 ?vp ?vp)))"
    by (rule resolver_finite(2) [OF zh nz'])
  have 1: "angle_of_attack (calculate_intermediate_quantities (lift4 q) (lift3 v) ang_velocity)
           = Fin (spec_angle_of_attack q v)"
    by (simp only: aoa spec_angle_of_attack_def spec_v_in_plane_def spec_v_dot_zhat_def)
  have 2: "v_dot_zhat_of (lift4 q) (lift3 v) = Fin 0 \<longrightarrow>
           angle_of_attack (calculate_intermediate_quantities (lift4 q) (lift3 v) ang_velocity)
             = Fin 0"
    by (simp add: d aoa spec_v_dot_zhat_def)
  from d p 1 2 show ?thesis
    by (intro conjI)
qed

text \<open>
  A disc on edge, its normal along the first axis: a velocity in the disc plane has
  angle of attack zero, and the velocity \<open>(1, 1, 0)\<close>, half along the normal, has angle
  of attack \<open>- pi / 4\<close>.
\<close>

theorem angle_of_attack_formula_witness:
  "spec_zhat (1 / 2, 1 / 2, 1 / 2, 1 / 2) = (1, 0, 0) \<and>
   v_dot_zhat_of (lift4 (1 / 2, 1 / 2, 1 / 2, 1 / 2)) (lift3 (0, 3, 4)) = Fin 0 \<and>
   angle_of_attack (calculate_intermediate_quantities (lift4 (1 / 2, 1 / 2, 1 / 2, 1 / 2))
      (lift3 (0, 3, 4)) (Fin 0, Fin 0, Fin 50)) = Fin 0 \<and>
   angle_of_attack (calculate_intermediate_quantities (lift4 (1 / 2, 1 / 2, 1 / 2, 1 / 2))
      (lift3 (1, 1, 0)) (Fin 0, Fin 0, Fin 50)) = Fin (- (pi / 4))"
proof -
  have unit: "dot4 (1 / 2, 1 / 2, 1 / 2, 1 / 2) (1 / 2, 1 / 2, 1 / 2, 1 / 2 :: real) = 1"
    by simp
  have zh: "spec_zhat (1 / 2, 1 / 2, 1 / 2, 1 / 2) = (1, 0, 0)"
    by (simp add: spec_zhat_eq)
  have nz: "spec_v_in_plane (1 / 2, 1 / 2, 1 / 2, 1 / 2) (0, 3, 4) \<noteq> (0, 0, 0)"
    by (simp add: spec_v_in_plane_def spec_v_dot_zhat_def zh)
  note flat = angle_of_attack_formula [OF unit nz, of "(Fin 0, Fin 0, Fin 50)"]
  from flat have d: "v_dot_zhat_of (lift4 (1 / 2, 1 / 2, 1 / 2, 1 / 2)) (lift3 (0, 3, 4)) = Fin 0"
    by (simp add: spec_v_dot_zhat_def zh)
  from flat d
  have a: "angle_of_attack (calculate_intermediate_quantities
      (lift4 (1 / 2, 1 / 2, 1 / 2, 1 / 2)) (lift3 (0, 3, 4)) (Fin 0, Fin 0, Fin 50)) = Fin 0"
    by (elim conjE) (erule mp, assumption)
  have nz': "spec_v_in_plane (1 / 2, 1 / 2, 1 / 2, 1 / 2) (1, 1, 0) \<noteq> (0, 0, 0)"
    by (simp add: spec_v_in_plane_def spec_v_dot_zhat_def zh)
  have val: "spec_angle_of_attack (1 / 2, 1 / 2, 1 / 2, 1 / 2) (1, 1, 0) = - (pi / 4)"
    by (simp add: spec_angle_of_attack_def spec_v_in_plane_def spec_v_dot_zhat_def zh
          arctan_one)
  from angle_of_attack_formula [OF unit nz', of "(Fin 0, Fin 0, Fin 50)"]
  have b: "angle_of_attack (calculate_intermediate_quantities
      (lift4 (1 / 2, 1 / 2, 1 / 2, 1 / 2)) (lift3 (1, 1, 0)) (Fin 0, Fin 0, Fin 50))
      = Fin (- (pi / 4))"
    by (simp only: val)
  from zh d a b show ?thesis
    by (intro conjI)
qed

section \<open>Quaternions: normalisation and composition\<close>

lemma dot4_lift [simp]: "dot4 (lift4 p) (lift4 q) = Fin (dot4 p q)"
  by (cases p rule: prod_cases4; cases q rule: prod_cases4) simp

lemma qdiv_lift [simp]: "s \<noteq> 0 \<Longrightarrow> qdiv (lift4 q) (Fin s) = lift4 (qdiv q s)"
  by (cases q rule: prod_cases4) simp

lemma qmul_lift [simp]: "qmul (lift4 q) (Fin s) = lift4 (qmul q s)"
  by (cases q rule: prod_cases4) simp

lemma compose_quat_lift [simp]:
  "compose_quat (lift4 p) (lift4 q) = lift4 (compose_quat p q)"
  by (cases p rule: prod_cases4; cases q rule: prod_cases4) simp

lemma lift4_eq_iff [simp]: "lift4 p = lift4 q \<longleftrightarrow> p = q"
  by (cases p rule: prod_cases4; cases q rule: prod_cases4) simp

lemma dot4_self_nonneg: "0 \<le> dot4 q (q :: real vec4)"
  by (cases q rule: prod_cases4) simp

lemma dot4_self_zero_iff: "dot4 q q = 0 \<longleftrightarrow> q = (0, 0, 0, 0 :: real)"
  by (cases q rule: prod_cases4) (auto simp: add_nonneg_eq_0_iff)

lemma norm4_lift [simp]: "norm4 (lift4 q) = Fin (sqrt (dot4 q q))"
  by (simp add: norm4_def dot4_self_nonneg linorder_not_less)

text \<open>The constructor on a finite quaternion: it fails exactly on the zero quaternion.\<close>

lemma from_quat_finite:
  "q \<noteq> (0, 0, 0, 0) \<Longrightarrow> from_quat chk (lift4 q) = Inr (lift4 (qdiv q (sqrt (dot4 q q))))"
  by (simp add: from_quat_def Let_def dot4_self_zero_iff)

lemma from_quat_zero: "from_quat chk (lift4 (0, 0, 0, 0)) = Inl ValueError_zero_norm"
  by (simp add: from_quat_def Let_def norm4_def)

lemma dot4_qdiv: "dot4 (qdiv q s) (qdiv q s) = dot4 q q / (s * s)" for q :: "real vec4"
  by (cases q rule: prod_cases4) (simp add: add_divide_distrib)

lemma normalised_unit:
  fixes q :: "real vec4"
  assumes "q \<noteq> (0, 0, 0, 0)"
  shows "dot4 (qdiv q (sqrt (dot4 q q))) (qdiv q (sqrt (dot4 q q))) = 1"
  using assms dot4_self_nonneg [of q] dot4_self_zero_iff [of q] by (simp add: dot4_qdiv)

lemma dot4_qmul: "dot4 (qmul q s) (qmul q s) = (s * s) * dot4 q q" for q :: "real vec4"
  by (cases q rule: prod_cases4) (simp add: algebra_simps)

lemma qmul_zero_iff: "s \<noteq> 0 \<Longrightarrow> qmul q s = (0, 0, 0, 0) \<longleftrightarrow> q = (0, 0, 0, 0 :: real)"
  by (cases q rule: prod_cases4) simp

lemma normalise_scaled:
  fixes q :: "real vec4"
  assumes "0 < l"
  shows "qdiv (qmul q l) (sqrt (dot4 (qmul q l) (qmul q l))) = qdiv q (sqrt (dot4 q q))"
proof -
  have "sqrt (dot4 (qmul q l) (qmul q l)) = l * sqrt (dot4 q q)"
    using assms by (simp add: dot4_qmul real_sqrt_mult)
  with assms show ?thesis
    by (cases q rule: prod_cases4) simp
qed

text \<open>The norm of a Hamilton product is the product of the norms.\<close>

lemma dot4_compose_quat:
  "dot4 (compose_quat p q) (compose_quat p q) = dot4 p p * dot4 q q" for p q :: "real vec4"
  by (cases p rule: prod_cases4; cases q rule: prod_cases4)
     (simp add: algebra_simps)

lemma compose_quat_qdiv_left:
  "compose_quat (qdiv p s) q = qdiv (compose_quat p q) s" for p q :: "real vec4"
  by (cases p rule: prod_cases4; cases q rule: prod_cases4)
     (simp add: add_divide_distrib diff_divide_distrib)

lemma qmul_qdiv_cancel:
  "s \<noteq> 0 \<Longrightarrow> qmul (qmul (qdiv q s) s) (1 / 2) = qmul q (1 / 2)" for q :: "real vec4"
  by (cases q rule: prod_cases4) simp

lemma qmul_qdiv: "s \<noteq> 0 \<Longrightarrow> qmul (qdiv q s) s = q" for q :: "real vec4"
  by (cases q rule: prod_cases4) simp

text \<open>
  In exact arithmetic the constructor gives a quaternion and its positive multiples
  the same rotation. In doubles the norms of the two round differently, and the
  squared norm of a very small or very large multiple underflows or overflows; this
  lemma does not speak about either.
\<close>

lemma from_quat_scaled_exact:
  assumes nz: "q \<noteq> (0, 0, 0, 0)" and l: "0 < l"
  shows "from_quat chk (lift4 (qmul q l)) = from_quat chk (lift4 q)"
proof -
  have nz': "qmul q l \<noteq> (0, 0, 0, 0)"
    using nz l qmul_zero_iff [of l q] by simp
  show ?thesis
    by (simp only: from_quat_finite [OF nz'] from_quat_finite [OF nz] normalise_scaled [OF l])
qed

section \<open>The quaternion derivative\<close>

lemma norm3_zero_iff: "norm3 (lift3 w) = Fin 0 \<longleftrightarrow> w = (0, 0, 0)"
  by (simp add: dot3_self_zero_iff)

lemma quaternion_rate_finite:
  assumes unit: "dot4 r r = 1"
  shows "quaternion_rate chk (lift4 r) (lift3 w)
         = Inr (lift4 (qmul (compose_quat (idx0 w, idx1 w, idx2 w, 0) r) (1 / 2)))"
proof (cases "w = (0, 0, 0)")
  case True
  have "compose_quat (0, 0, 0, 0) r = (0, 0, 0, 0)"
    by (cases r rule: prod_cases4) simp
  with True show ?thesis
    by (simp add: quaternion_rate_zero)
next
  case False
  obtain a b c where w: "w = (a, b, c)"
    by (cases w rule: prod_cases3)
  let ?n = "sqrt (dot3 w w)"
  let ?p = "qdiv (a, b, c, 0) ?n"
  have n: "?n \<noteq> 0"
    using False by (simp add: dot3_self_zero_iff)
  have far: "\<not> isclose (Fin 0) (norm3 (lift3 w))"
    using n by (simp add: isclose_zero_iff del: isclose.simps)
  have d4: "dot4 (a, b, c, 0) (a, b, c, 0) = dot3 w w"
    by (simp add: w)
  have nz4: "(a, b, c, 0) \<noteq> (0, 0, 0, 0 :: real)"
    using False by (simp add: w)
  have p: "from_quat chk (Fin a, Fin b, Fin c, Fin 0) = Inr (lift4 ?p)"
    using from_quat_finite [OF nz4, of chk] by (simp only: d4 lift4.simps)
  have pp: "dot4 ?p ?p = 1"
    using normalised_unit [OF nz4] by (simp only: d4)
  have cc: "dot4 (compose_quat ?p r) (compose_quat ?p r) = 1"
    by (simp only: dot4_compose_quat pp unit mult_1)
  then have cnz: "compose_quat ?p r \<noteq> (0, 0, 0, 0)"
    by (auto simp del: compose_quat.simps qdiv.simps)
  have one: "qdiv (compose_quat ?p r) 1 = compose_quat ?p r"
    by (cases "compose_quat ?p r" rule: prod_cases4) simp
  have pr: "rot_mul chk (lift4 ?p) (lift4 r) = Inr (lift4 (compose_quat ?p r))"
    using from_quat_finite [OF cnz, of chk]
    by (simp only: rot_mul_def compose_quat_lift cc real_sqrt_one one)
  have fin: "qdiv (qmul (lift4 (compose_quat ?p r)) (Fin ?n)) (Fin 2)
             = lift4 (qmul (compose_quat (a, b, c, 0) r) (1 / 2))"
  proof -
    have "qmul (compose_quat ?p r) ?n = compose_quat (a, b, c, 0) r"
      by (simp only: compose_quat_qdiv_left qmul_qdiv [OF n])
    then show ?thesis
      by (cases "compose_quat (a, b, c, 0) r" rule: prod_cases4) (simp del: compose_quat.simps)
  qed
  have i: "(idx0 (lift3 w), idx1 (lift3 w), idx2 (lift3 w), Fin 0)
           = (Fin a, Fin b, Fin c, Fin 0)"
    by (simp add: w)
  have nrm: "norm3 (lift3 w) = Fin ?n"
    by simp
  have far': "isclose (Fin 0) (Fin ?n) = False"
    using far by (simp only: nrm)
  show ?thesis
    unfolding quaternion_rate_def Let_def
    by (simp only: nrm far' if_False i p pr as_quat_def fin sum.case)
       (simp add: w)
qed

lemma slow_wobble_norm: "norm3 (Fin (1 / 10 ^ 12), Fin 0, Fin 0) = Fin (1 / 10 ^ 12)"
proof -
  have "sqrt (1 / 10 ^ 24) = (1 / 10 ^ 12 :: real)"
    by (rule real_sqrt_unique) (simp_all add: power2_eq_square)
  then show ?thesis
    by (simp add: norm3_def)
qed

lemma identity_rate:
  "quaternion_rate chk (Fin 0, Fin 0, Fin 0, Fin 1) (Fin a, Fin b, Fin 0)
   = Inr (Fin (a / 2), Fin (b / 2), Fin 0, Fin 0)"
proof -
  have unit: "dot4 (0, 0, 0, 1) (0, 0, 0, 1 :: real) = 1"
    by simp
  from quaternion_rate_finite [OF unit, of chk "(a, b, 0)"] show ?thesis
    by simp
qed

text \<open>
  C4, at a state the code can receive: the first flight with a wobble of \<open>1 / 10^12\<close>
  rad/s. The combined rate has norm \<open>1 / 10^12\<close>, and \<^verbatim>\<open>math.isclose(0, w_norm)\<close> is
  false (its absolute tolerance is zero by default, so it holds for a norm of exactly
  zero only). The quaternion derivative is therefore made by the general branch, from
  the rotation about \<open>w\<close> composed with the orientation, \<open>(1 / (2 10^12), 0, 0, 0)\<close>, and
  not from the identity rotation, which would give \<open>(0, 0, 0, 1 / (2 10^12))\<close>.
\<close>

theorem small_rate_general_branch:
  "combined_w scenario_eom (Fin 10, Fin 0, Fin 0) (Fin (1 / 10 ^ 12), Fin 0, Fin 50)
     (compute_forces scenario_eom (Fin 0, Fin 0, Fin 0, Fin 1) (Fin 10, Fin 0, Fin 0)
        (Fin (1 / 10 ^ 12), Fin 0, Fin 50))
     = (Fin (1 / 10 ^ 12), Fin 0, Fin 0) \<and>
   norm3 (Fin (1 / 10 ^ 12), Fin 0, Fin 0) = Fin (1 / 10 ^ 12) \<and>
   isclose (Fin 0) (Fin (1 / 10 ^ 12)) = False \<and>
   qdiv (qmul (as_quat (Fin 0, Fin 0, Fin 0, Fin 1)) (Fin (1 / 10 ^ 12))) (Fin 2)
     = (Fin 0, Fin 0, Fin 0, Fin (1 / (2 * 10 ^ 12))) \<and>
   compute_derivatives ZeroOnly scenario_eom (Fin 0) slow_wobble_state
     = Inr [Fin 10, Fin 0, Fin 0, Fin (- 2.03), Fin 0, Fin (- 3.72),
            Fin (1 / (2 * 10 ^ 12)), Fin 0, Fin 0, Fin 0,
            Fin 0, Fin (1 / 10 ^ 10), Fin 0] \<and>
   compute_derivatives ZeroOrNaN scenario_eom (Fin 0) slow_wobble_state
     = Inr [Fin 10, Fin 0, Fin 0, Fin (- 2.03), Fin 0, Fin (- 3.72),
            Fin (1 / (2 * 10 ^ 12)), Fin 0, Fin 0, Fin 0,
            Fin 0, Fin (1 / 10 ^ 10), Fin 0]"
proof -
  have w: "combined_w scenario_eom (Fin 10, Fin 0, Fin 0) (Fin (1 / 10 ^ 12), Fin 0, Fin 50)
     (compute_forces scenario_eom (Fin 0, Fin 0, Fin 0, Fin 1) (Fin 10, Fin 0, Fin 0)
        (Fin (1 / 10 ^ 12), Fin 0, Fin 50))
     = (Fin (1 / 10 ^ 12), Fin 0, Fin 0)"
    by (rule scenario_combined_w) simp
  have far: "isclose (Fin 0) (Fin (1 / 10 ^ 12)) = False"
    by (simp add: isclose_zero_iff del: isclose.simps)
  have ident: "qdiv (qmul (as_quat (Fin 0, Fin 0, Fin 0, Fin 1)) (Fin (1 / 10 ^ 12))) (Fin 2)
     = (Fin 0, Fin 0, Fin 0, Fin (1 / (2 * 10 ^ 12)))"
    by (simp add: as_quat_def)
  have d: "compute_derivatives chk scenario_eom (Fin 0) slow_wobble_state
     = Inr [Fin 10, Fin 0, Fin 0, Fin (- 2.03), Fin 0, Fin (- 3.72),
            Fin (1 / (2 * 10 ^ 12)), Fin 0, Fin 0, Fin 0,
            Fin 0, Fin (1 / 10 ^ 10), Fin 0]" for chk
    by (simp add: compute_derivatives_def slow_wobble_state_def compute_torques_def
          scenario_combined_w identity_rate scenario_torque_amplitude
          scenario_wobble_precession Let_def)
       (simp add: scenario_forces)
  from w slow_wobble_norm far ident d [of ZeroOnly] d [of ZeroOrNaN] show ?thesis
    by (intro conjI)
qed

section \<open>The forces\<close>

lemma np_mul_commute: "(a::npfloat) * b = b * a"
  by (cases a; cases b; simp add: times_npfloat_def)

lemma vadd_commute: "vadd a b = vadd b (a :: npfloat vec3)"
  by (cases a rule: prod_cases3; cases b rule: prod_cases3) (simp add: np_add_commute)

lemma vadd_assoc: "vadd (vadd a b) c = vadd a (vadd b (c :: npfloat vec3))"
  by (cases a rule: prod_cases3; cases b rule: prod_cases3; cases c rule: prod_cases3)
     (simp add: np_add_assoc)

text \<open>
  C3: with \<open>q\<close> the dynamic pressure scale and \<open>vhat\<close> the velocity over its norm, the
  force computation returns the lift force \<open>C_lift(aoa) q (vhat \<times> yhat)\<close>, the side force
  \<open>C_side(aoa, |v|, dgamma) q yhat\<close>, the drag force \<open>C_drag(aoa) q (-vhat)\<close>, the gravity
  force \<open>mass g grav_vector\<close>, their sum as total force (the code adds lift, drag,
  gravity and side force in this order; in exact arithmetic the order does not matter)
  and the total force over the mass as acceleration, where the angle of attack and
  \<open>yhat\<close> are those of the resolver. The equations hold for every state, and so for
  those with non-zero velocity and non-degenerate in-plane velocity.
\<close>

theorem forces_as_specified:
  fixes self :: EOM and rotation :: rotation and velocity ang_velocity :: "npfloat vec3"
  defines "res \<equiv> compute_forces self rotation velocity ang_velocity"
  defines "q \<equiv> dynamic_pressure_scale self velocity"
  defines "vhat \<equiv> vdiv velocity (norm3 velocity)"
  shows "unit_vectors res
           = unit_vectors (calculate_intermediate_quantities rotation velocity ang_velocity) \<and>
         angle_of_attack res
           = angle_of_attack (calculate_intermediate_quantities rotation velocity ang_velocity) \<and>
         F_lift res = smul (C_lift (model self) (angle_of_attack res) * q)
                        (cross vhat (yhat (unit_vectors res))) \<and>
         F_side res = smul (C_side (model self) (angle_of_attack res) (norm3 velocity)
                              (idx2 ang_velocity) * q)
                        (yhat (unit_vectors res)) \<and>
         F_drag res = smul (C_drag (model self) (angle_of_attack res) * q) (vneg vhat) \<and>
         F_grav res = smul (mass (model self) * g (environment self))
                        (grav_vector (environment self)) \<and>
         F_total res = vadd (vadd (vadd (F_lift res) (F_side res)) (F_drag res)) (F_grav res) \<and>
         Acc res = vdiv (F_total res) (mass (model self))"
proof -
  have sum: "vadd (vadd (vadd a b) c) d = vadd (vadd (vadd a d) b) c"
    for a b c d :: "npfloat vec3"
    by (simp only: vadd_assoc vadd_commute [of d])
  show ?thesis
    unfolding res_def q_def vhat_def
    by (simp add: compute_forces_def dynamic_pressure_scale_def Let_def sum)
qed

theorem forces_as_specified_witness:
  "F_total (compute_forces scenario_eom (Fin 0, Fin 0, Fin 0, Fin 1) (Fin 10, Fin 0, Fin 0)
              (Fin 0, Fin 0, Fin 50))
     = vadd (vadd (vadd
         (F_lift (compute_forces scenario_eom (Fin 0, Fin 0, Fin 0, Fin 1)
                    (Fin 10, Fin 0, Fin 0) (Fin 0, Fin 0, Fin 50)))
         (F_side (compute_forces scenario_eom (Fin 0, Fin 0, Fin 0, Fin 1)
                    (Fin 10, Fin 0, Fin 0) (Fin 0, Fin 0, Fin 50))))
         (F_drag (compute_forces scenario_eom (Fin 0, Fin 0, Fin 0, Fin 1)
                    (Fin 10, Fin 0, Fin 0) (Fin 0, Fin 0, Fin 50))))
         (F_grav (compute_forces scenario_eom (Fin 0, Fin 0, Fin 0, Fin 1)
                    (Fin 10, Fin 0, Fin 0) (Fin 0, Fin 0, Fin 50))) \<and>
   F_total (compute_forces scenario_eom (Fin 0, Fin 0, Fin 0, Fin 1) (Fin 10, Fin 0, Fin 0)
              (Fin 0, Fin 0, Fin 50))
     = (Fin (- 0.35525), Fin 0, Fin (- 0.651)) \<and>
   Acc (compute_forces scenario_eom (Fin 0, Fin 0, Fin 0, Fin 1) (Fin 10, Fin 0, Fin 0)
          (Fin 0, Fin 0, Fin 50))
     = vdiv (F_total (compute_forces scenario_eom (Fin 0, Fin 0, Fin 0, Fin 1)
                        (Fin 10, Fin 0, Fin 0) (Fin 0, Fin 0, Fin 50)))
         (mass (model scenario_eom))"
proof -
  note all = forces_as_specified [of scenario_eom "(Fin 0, Fin 0, Fin 0, Fin 1)"
      "(Fin 10, Fin 0, Fin 0)" "(Fin 0, Fin 0, Fin 50)"]
  note total = all [THEN conjunct2, THEN conjunct2, THEN conjunct2, THEN conjunct2,
      THEN conjunct2, THEN conjunct2, THEN conjunct1]
  note acc = all [THEN conjunct2, THEN conjunct2, THEN conjunct2, THEN conjunct2,
      THEN conjunct2, THEN conjunct2, THEN conjunct2]
  have val: "F_total (compute_forces scenario_eom (Fin 0, Fin 0, Fin 0, Fin 1)
                (Fin 10, Fin 0, Fin 0) (Fin 0, Fin 0, Fin 50))
             = (Fin (- 0.35525), Fin 0, Fin (- 0.651))"
    by (simp add: scenario_forces)
  from total val acc show ?thesis
    by (intro conjI)
qed

section \<open>Zero coefficients\<close>

lemma smul_zero_lift [simp]: "smul (Fin 0) (lift3 u) = (Fin 0, Fin 0, Fin 0)"
  by (cases u rule: prod_cases3) simp

lemma lift3_zero [simp]: "lift3 (0, 0, 0) = (Fin 0, Fin 0, Fin 0)"
  by simp

lemma smul_zero_real [simp]: "smul (0 :: real) u = (0, 0, 0)"
  by (cases u rule: prod_cases3) simp

lemma as_matrix_finite:
  "as_matrix (Fin x, Fin y, Fin z, Fin w)
   = (lift3 (x * x - y * y - z * z + w * w, 2 * (x * y - z * w), 2 * (x * z + y * w)),
      lift3 (2 * (x * y + z * w), - (x * x) + y * y - z * z + w * w, 2 * (y * z - x * w)),
      lift3 (2 * (x * z - y * w), 2 * (y * z + x * w), - (x * x) - y * y + z * z + w * w))"
  by (simp add: Let_def)

text \<open>The wobble vector of a finite orientation and finite angular velocity is finite.\<close>

lemma res_w_finite:
  "\<exists>wob. res_w (compute_forces self (Fin x, Fin y, Fin z, Fin w) velocity
                   (Fin wx, Fin wy, Fin wz)) = lift3 wob"
proof -
  have "res_w (compute_forces self (Fin x, Fin y, Fin z, Fin w) velocity
                 (Fin wx, Fin wy, Fin wz))
        = mat_vec (as_matrix (Fin x, Fin y, Fin z, Fin w)) (Fin wx, Fin wy, Fin 0)"
    by (simp add: compute_forces_def calculate_intermediate_quantities_def Let_def
          del: as_matrix.simps mat_vec.simps)
  also have "\<dots> = lift3 (mat_vec
            ((x * x - y * y - z * z + w * w, 2 * (x * y - z * w), 2 * (x * z + y * w)),
             (2 * (x * y + z * w), - (x * x) + y * y - z * z + w * w, 2 * (y * z - x * w)),
             (2 * (x * z - y * w), 2 * (y * z + x * w), - (x * x) - y * y + z * z + w * w))
            (wx, wy, 0))"
    by (simp add: Let_def)
  finally show ?thesis
    by (rule exI)
qed

lemma in_plane_nonzero_velocity:
  fixes v zh :: "real vec3"
  assumes "vsub v (vmul zh (dot3 v zh)) \<noteq> (0, 0, 0)"
  shows "v \<noteq> (0, 0, 0)"
  using assms by (cases zh rule: prod_cases3) auto

lemma compute_torques_fields:
  assumes "quaternion_rate chk rotation (combined_w self velocity ang_velocity res) = Inr h"
    and "compute_wobble_precession self ang_velocity (torque_amplitude_of self velocity) = Inr T"
  shows "\<exists>out. compute_torques chk self velocity ang_velocity rotation res = Inr out \<and>
           torque_amplitude out = torque_amplitude_of self velocity \<and>
           res_T out = T \<and>
           dq out = h"
  using assms by (simp add: compute_torques_def Let_def)

text \<open>
  C5, as the code has it: with every aerodynamic coefficient function, both damping
  coefficients and the gravity magnitude zero, on a valid finite state (unit
  orientation, in-plane velocity not zero, spin not zero, moments of inertia not zero)
  the total force is zero, the roll and pitch moments are zero, and the angular
  acceleration is the precession term \<open>2 wz (I_zz - I_xx) / I_xx (-wy, wx, 0)\<close> alone.
  The torque amplitude is not zero: it is half the air density times the squared speed
  times diameter times area, whatever the coefficients.
\<close>

theorem zero_coefficients:
  fixes rho m A d ixx izz x y z w wx wy wz :: real and gv v :: "real vec3"
  defines "self \<equiv>
     \<lparr> environment = \<lparr> air_density = Fin rho, g = Fin 0, grav_vector = lift3 gv \<rparr>,
       model = \<lparr> mass = Fin m, area = Fin A, diameter = Fin d,
                 I_xx = Fin ixx, I_zz = Fin izz,
                 dampening_factor = Fin 0, dampening_z = Fin 0,
                 C_lift = (\<lambda>aoa. Fin 0), C_drag = (\<lambda>aoa. Fin 0),
                 C_side = (\<lambda>aoa speed spin. Fin 0), C_x = (\<lambda>aoa speed spin. Fin 0),
                 C_y = (\<lambda>aoa. Fin 0) \<rparr> \<rparr>"
  defines "rotation \<equiv> (Fin x, Fin y, Fin z, Fin w)"
  defines "ang_velocity \<equiv> (Fin wx, Fin wy, Fin wz)"
  defines "res \<equiv> compute_forces self rotation (lift3 v) ang_velocity"
  assumes unit: "x * x + y * y + z * z + w * w = 1"
    and nz: "v_in_plane_of (Fin x, Fin y, Fin z, Fin w) (lift3 v) \<noteq> (Fin 0, Fin 0, Fin 0)"
    and spin: "wz \<noteq> 0"
    and inertia: "ixx \<noteq> 0" "izz \<noteq> 0"
  shows "F_total res = (Fin 0, Fin 0, Fin 0) \<and>
         roll self (lift3 v) res = (Fin 0, Fin 0, Fin 0) \<and>
         pitch_up self (lift3 v) ang_velocity res = (Fin 0, Fin 0, Fin 0) \<and>
         (\<exists>out. compute_torques chk self (lift3 v) ang_velocity rotation res = Inr out \<and>
            torque_amplitude out = Fin (1 / 2 * rho * dot3 v v * d * A) \<and>
            res_T out = lift3 (smul (2 * wz * (izz - ixx) / ixx) (- wy, wx, 0)))"
proof -
  define zh where
    "zh = (2 * (x * z + y * w), 2 * (y * z - x * w), - (x * x) - y * y + z * z + w * w)"
  let ?vp = "vsub v (vmul zh (dot3 v zh))"
  have zh: "zhat_of rotation = lift3 zh"
    by (simp add: zh_def zhat_of_finite rotation_def)
  have nz': "?vp \<noteq> (0, 0, 0)"
    using nz by (simp add: v_in_plane_of_finite [OF zh, unfolded rotation_def] lift3_zero_iff)
  have vn: "sqrt (dot3 v v) \<noteq> 0"
    using in_plane_nonzero_velocity [OF nz'] by (simp add: dot3_self_zero_iff)
  note uv = resolver_finite(1) [OF zh nz', of ang_velocity]
  have tau: "torque_amplitude_of self (lift3 v) = Fin (1 / 2 * rho * dot3 v v * d * A)"
    by (simp add: torque_amplitude_of_def self_def)
  have total: "F_total res = (Fin 0, Fin 0, Fin 0)"
    using vn
    by (simp add: res_def compute_forces_def Let_def uv self_def
          del: lift3.simps vdiv.simps vsub.simps vmul.simps cross.simps)
  have uv_res: "unit_vectors res
      = unit_vectors (calculate_intermediate_quantities rotation (lift3 v) ang_velocity)"
    by (simp add: res_def compute_forces_def Let_def)
  have roll: "roll self (lift3 v) res = (Fin 0, Fin 0, Fin 0)"
    by (simp add: roll_def tau uv_res uv del: lift3.simps vdiv.simps vsub.simps vmul.simps)
       (simp add: self_def del: lift3.simps vdiv.simps vsub.simps vmul.simps)
  have pitch: "pitch_up self (lift3 v) ang_velocity res = (Fin 0, Fin 0, Fin 0)"
    by (simp add: pitch_up_def tau uv_res uv
          del: lift3.simps vdiv.simps vsub.simps vmul.simps cross.simps norm3_lift)
       (simp add: self_def del: lift3.simps vdiv.simps vsub.simps vmul.simps cross.simps
          norm3_lift)
  obtain wob where wob: "res_w res = lift3 wob"
    unfolding res_def rotation_def ang_velocity_def using res_w_finite by blast
  have cw: "combined_w self (lift3 v) ang_velocity res = lift3 wob"
    using spin inertia
    by (cases wob rule: prod_cases3)
       (simp add: combined_w_def Let_def roll pitch wob, simp add: self_def ang_velocity_def)
  have unit4: "dot4 (x, y, z, w) (x, y, z, w) = 1"
    using unit by simp
  have rate: "quaternion_rate chk rotation (combined_w self (lift3 v) ang_velocity res)
              = Inr (lift4 (qmul (compose_quat (idx0 wob, idx1 wob, idx2 wob, 0) (x, y, z, w))
                              (1 / 2)))"
    using quaternion_rate_finite [OF unit4, of chk wob] by (simp only: cw rotation_def lift4.simps)
  have T: "compute_wobble_precession self ang_velocity (Fin (1 / 2 * rho * dot3 v v * d * A))
           = Inr (lift3 (smul (2 * wz * (izz - ixx) / ixx) (- wy, wx, 0)))"
    using inertia
    by (simp add: compute_wobble_precession_def Let_def self_def ang_velocity_def)
  from compute_torques_fields [OF rate T [folded tau]] obtain out where
    out: "compute_torques chk self (lift3 v) ang_velocity rotation res = Inr out"
    and amp: "torque_amplitude out = torque_amplitude_of self (lift3 v)"
    and acc': "res_T out = lift3 (smul (2 * wz * (izz - ixx) / ixx) (- wy, wx, 0))"
    by blast
  have amp': "torque_amplitude out = Fin (1 / 2 * rho * dot3 v v * d * A)"
    using amp by (simp only: tau)
  from total roll pitch out amp' acc' show ?thesis
    by blast
qed

lemma coasting_forces:
  "compute_forces coasting_eom (Fin 0, Fin 0, Fin 0, Fin 1) (Fin 10, Fin 0, Fin 0)
     (Fin dphi, Fin dtheta, Fin dgamma)
   = \<lparr> unit_vectors = \<lparr> xhat = (Fin 1, Fin 0, Fin 0), yhat = (Fin 0, Fin 1, Fin 0),
                             zhat = (Fin 0, Fin 0, Fin 1) \<rparr>,
       angle_of_attack = Fin 0, res_w = (Fin dphi, Fin dtheta, Fin 0),
       F_lift = (Fin 0, Fin 0, Fin 0), F_side = (Fin 0, Fin 0, Fin 0),
       F_drag = (Fin 0, Fin 0, Fin 0), F_grav = (Fin 0, Fin 0, Fin 0),
       F_total = (Fin 0, Fin 0, Fin 0), Acc = (Fin 0, Fin 0, Fin 0) \<rparr>"
  by (simp add: compute_forces_def scenario_intermediate norm3_def coasting_eom_def Let_def)

lemma coasting_torque_amplitude:
  "torque_amplitude_of coasting_eom (Fin 10, Fin 0, Fin 0) = Fin 0.959175"
  by (simp add: torque_amplitude_of_def coasting_eom_def)

lemma coasting_combined_w:
  "dgamma \<noteq> 0 \<Longrightarrow>
   combined_w coasting_eom (Fin 10, Fin 0, Fin 0) (Fin dphi, Fin dtheta, Fin dgamma)
     (compute_forces coasting_eom (Fin 0, Fin 0, Fin 0, Fin 1) (Fin 10, Fin 0, Fin 0)
        (Fin dphi, Fin dtheta, Fin dgamma))
   = (Fin dphi, Fin dtheta, Fin 0)"
  by (simp add: combined_w_def roll_def pitch_up_def coasting_forces
        coasting_torque_amplitude Let_def)
     (simp add: coasting_eom_def)

lemma coasting_wobble_precession:
  "compute_wobble_precession coasting_eom (Fin dphi, Fin dtheta, Fin dgamma) (Fin tq)
   = Inr (Fin (- (2 * dgamma * dtheta)), Fin (2 * dgamma * dphi), Fin 0)"
  by (simp add: compute_wobble_precession_def coasting_eom_def Let_def)

theorem zero_coefficients_witness:
  "F_total (compute_forces coasting_eom (Fin 0, Fin 0, Fin 0, Fin 1) (Fin 10, Fin 0, Fin 0)
              (Fin 1, Fin 2, Fin 50)) = (Fin 0, Fin 0, Fin 0) \<and>
   map_sum id res_T
     (compute_torques ZeroOnly coasting_eom (Fin 10, Fin 0, Fin 0) (Fin 1, Fin 2, Fin 50)
        (Fin 0, Fin 0, Fin 0, Fin 1)
        (compute_forces coasting_eom (Fin 0, Fin 0, Fin 0, Fin 1) (Fin 10, Fin 0, Fin 0)
           (Fin 1, Fin 2, Fin 50)))
     = Inr (Fin (- 200), Fin 100, Fin 0)"
proof -
  have unit: "0 * 0 + 0 * 0 + 0 * 0 + 1 * 1 = (1 :: real)"
    by simp
  have nz: "v_in_plane_of (Fin 0, Fin 0, Fin 0, Fin 1) (lift3 (10, 0, 0))
            \<noteq> (Fin 0, Fin 0, Fin 0)"
    by (simp add: v_in_plane_of_def v_dot_zhat_of_def zhat_of_def Let_def)
  have spin: "(50 :: real) \<noteq> 0" and inertia: "(0.002 :: real) \<noteq> 0" "(0.004 :: real) \<noteq> 0"
    by simp_all
  have self: "\<lparr> environment =
                   \<lparr> air_density = Fin 1.225, g = Fin 0, grav_vector = lift3 (0, 0, - 1) \<rparr>,
                 model = \<lparr> mass = Fin 0.175, area = Fin 0.058, diameter = Fin 0.27,
                   I_xx = Fin 0.002, I_zz = Fin 0.004,
                   dampening_factor = Fin 0, dampening_z = Fin 0,
                   C_lift = (\<lambda>aoa. Fin 0), C_drag = (\<lambda>aoa. Fin 0),
                   C_side = (\<lambda>aoa speed spin. Fin 0), C_x = (\<lambda>aoa speed spin. Fin 0),
                   C_y = (\<lambda>aoa. Fin 0) \<rparr> \<rparr> = coasting_eom"
    by (simp add: coasting_eom_def)
  note all = zero_coefficients [OF unit nz spin inertia,
      of "1.225" "(0, 0, - 1)" "0.175" "0.058" "0.27" 1 2 ZeroOnly, unfolded self]
  from all have total:
    "F_total (compute_forces coasting_eom (Fin 0, Fin 0, Fin 0, Fin 1) (lift3 (10, 0, 0))
                (Fin 1, Fin 2, Fin 50)) = (Fin 0, Fin 0, Fin 0)"
    by (rule conjunct1)
  from all obtain out where
    "compute_torques ZeroOnly coasting_eom (lift3 (10, 0, 0)) (Fin 1, Fin 2, Fin 50)
        (Fin 0, Fin 0, Fin 0, Fin 1)
        (compute_forces coasting_eom (Fin 0, Fin 0, Fin 0, Fin 1) (lift3 (10, 0, 0))
           (Fin 1, Fin 2, Fin 50)) = Inr out"
    and "res_T out = lift3 (smul (2 * 50 * (0.004 - 0.002) / 0.002) (- 2, 1, 0))"
    by blast
  with total show ?thesis
    by simp
qed

text \<open>
  The claim as the specification states it asks for a torque amplitude of exactly zero.
  In the coasting flight every coefficient is zero, and the torque amplitude is
  0.959175.
\<close>

theorem zero_coefficients_counterexample:
  "map_sum id torque_amplitude
     (compute_torques ZeroOnly coasting_eom (Fin 10, Fin 0, Fin 0) (Fin 0, Fin 0, Fin 50)
        (Fin 0, Fin 0, Fin 0, Fin 1)
        (compute_forces coasting_eom (Fin 0, Fin 0, Fin 0, Fin 1) (Fin 10, Fin 0, Fin 0)
           (Fin 0, Fin 0, Fin 50)))
     = Inr (Fin 0.959175) \<and>
   map_sum id torque_amplitude
     (compute_torques ZeroOnly coasting_eom (Fin 10, Fin 0, Fin 0) (Fin 0, Fin 0, Fin 50)
        (Fin 0, Fin 0, Fin 0, Fin 1)
        (compute_forces coasting_eom (Fin 0, Fin 0, Fin 0, Fin 1) (Fin 10, Fin 0, Fin 0)
           (Fin 0, Fin 0, Fin 50)))
     \<noteq> Inr (Fin 0)"
proof -
  have "quaternion_rate ZeroOnly (Fin 0, Fin 0, Fin 0, Fin 1)
          (combined_w coasting_eom (Fin 10, Fin 0, Fin 0) (Fin 0, Fin 0, Fin 50)
             (compute_forces coasting_eom (Fin 0, Fin 0, Fin 0, Fin 1) (Fin 10, Fin 0, Fin 0)
                (Fin 0, Fin 0, Fin 50)))
        = Inr (Fin 0, Fin 0, Fin 0, Fin 0)"
    by (simp add: coasting_combined_w quaternion_rate_zero)
  moreover have "compute_wobble_precession coasting_eom (Fin 0, Fin 0, Fin 50)
          (torque_amplitude_of coasting_eom (Fin 10, Fin 0, Fin 0))
        = Inr (Fin 0, Fin 0, Fin 0)"
    by (simp add: coasting_torque_amplitude coasting_wobble_precession)
  ultimately obtain out where
    "compute_torques ZeroOnly coasting_eom (Fin 10, Fin 0, Fin 0) (Fin 0, Fin 0, Fin 50)
        (Fin 0, Fin 0, Fin 0, Fin 1)
        (compute_forces coasting_eom (Fin 0, Fin 0, Fin 0, Fin 1) (Fin 10, Fin 0, Fin 0)
           (Fin 0, Fin 0, Fin 50)) = Inr out"
    and "torque_amplitude out = torque_amplitude_of coasting_eom (Fin 10, Fin 0, Fin 0)"
    using compute_torques_fields by blast
  then show ?thesis
    by (simp add: coasting_torque_amplitude)
qed

section \<open>Division by zero and the special values\<close>

lemma Fin_div_zero [simp]:
  "Fin a / Fin 0 = (if 0 < a then PInf else if a < 0 then NInf else NaN)"
  by (simp add: divide_npfloat_def)

lemma div_zero_not_finite: "\<not> isfinite (a / (b * Fin 0))"
  by (cases a; cases b; simp add: divide_npfloat_def times_npfloat_def)

lemma add_not_finite: "\<not> isfinite a \<Longrightarrow> \<not> isfinite (a + b)"
  by (cases a; cases b; simp add: plus_npfloat_def)

lemma square_not_finite: "\<not> isfinite a \<Longrightarrow> a * a = PInf \<or> a * a = NaN"
  by (cases a; simp add: times_npfloat_def)

lemma div_not_finite: "\<not> isfinite a \<Longrightarrow> n = PInf \<or> n = NaN \<Longrightarrow> a / n = NaN"
  by (cases a; auto simp: divide_npfloat_def)

lemma norm3_not_finite:
  assumes "\<not> isfinite a" "\<not> isfinite b" "\<not> isfinite c"
  shows "norm3 (a, b, c) = PInf \<or> norm3 (a, b, c) = NaN"
    and "norm4 (a, b, c, Fin 0) = norm3 (a, b, c)"
  using square_not_finite [OF assms(1)] square_not_finite [OF assms(2)]
    square_not_finite [OF assms(3)]
  by (auto simp: norm3_def norm4_def plus_npfloat_def)

lemma compose_quat_NaN:
  "compose_quat (NaN, NaN, NaN, p3) (q :: npfloat vec4) = (NaN, NaN, NaN, NaN)"
  by (cases q rule: prod_cases4) simp

lemma norm4_NaN [simp]: "norm4 (NaN, NaN, NaN, NaN) = NaN"
  by (simp add: norm4_def)

lemma isclose_not_finite: "n = PInf \<or> n = NaN \<Longrightarrow> \<not> isclose (Fin 0) n"
  by auto

text \<open>
  A rate vector whose components are all infinite or NaN: the quaternion derivative is
  NaN when the constructor lets NaN through, and the constructor's error otherwise.
\<close>

lemma quaternion_rate_not_finite:
  assumes "\<not> isfinite a" "\<not> isfinite b" "\<not> isfinite c"
  shows "quaternion_rate ZeroOnly rotation (a, b, c) = Inr (NaN, NaN, NaN, NaN)"
    and "quaternion_rate ZeroOrNaN rotation (a, b, c) = Inl ValueError_zero_norm"
proof -
  note n = norm3_not_finite [OF assms]
  have far: "\<not> isclose (Fin 0) (norm3 (a, b, c))"
    by (rule isclose_not_finite [OF n(1)])
  have nz: "norm3 (a, b, c) \<noteq> Fin 0"
    using n(1) by auto
  have d: "a / norm3 (a, b, c) = NaN" "b / norm3 (a, b, c) = NaN" "c / norm3 (a, b, c) = NaN"
    using assms n(1) by (simp_all add: div_not_finite)
  have p1: "from_quat ZeroOnly (a, b, c, Fin 0)
            = Inr (NaN, NaN, NaN, Fin 0 / norm3 (a, b, c))"
    using nz by (simp add: from_quat_def Let_def n(2) d)
  have m1: "rot_mul ZeroOnly (NaN, NaN, NaN, p3) rotation = Inr (NaN, NaN, NaN, NaN)" for p3
    by (simp add: rot_mul_def compose_quat_NaN from_quat_def Let_def)
  show "quaternion_rate ZeroOnly rotation (a, b, c) = Inr (NaN, NaN, NaN, NaN)"
    using far by (simp add: quaternion_rate_def Let_def p1 m1 as_quat_def)
  have m2: "rot_mul ZeroOrNaN (NaN, NaN, NaN, p3) rotation = Inl ValueError_zero_norm" for p3
    by (simp add: rot_mul_def compose_quat_NaN from_quat_def Let_def)
  have p2: "from_quat ZeroOrNaN (a, b, c, Fin 0) = Inl ValueError_zero_norm \<or>
            from_quat ZeroOrNaN (a, b, c, Fin 0)
              = Inr (NaN, NaN, NaN, Fin 0 / norm3 (a, b, c))"
    using nz by (simp add: from_quat_def Let_def n(2) d)
  then show "quaternion_rate ZeroOrNaN rotation (a, b, c) = Inl ValueError_zero_norm"
    using far by (auto simp: quaternion_rate_def Let_def m2)
qed

text \<open>With zero spin every component of the combined rate is infinite or NaN.\<close>

lemma combined_w_zero_spin:
  "\<not> isfinite (idx0 (combined_w self velocity (dphi, dtheta, Fin 0) res)) \<and>
   \<not> isfinite (idx1 (combined_w self velocity (dphi, dtheta, Fin 0) res)) \<and>
   \<not> isfinite (idx2 (combined_w self velocity (dphi, dtheta, Fin 0) res))"
proof -
  obtain x0 x1 x2 where x: "vadd (roll self velocity res)
      (pitch_up self velocity (dphi, dtheta, Fin 0) res) = (x0, x1, x2)"
    by (rule prod_cases3)
  obtain u0 u1 u2 where u: "res_w res = (u0, u1, u2)"
    by (rule prod_cases3)
  show ?thesis
    by (simp add: combined_w_def Let_def x u add_not_finite div_zero_not_finite)
qed

section \<open>Zero spin\<close>

lemma compute_torques_error:
  "quaternion_rate chk rotation (combined_w self velocity ang_velocity res) = Inl e \<Longrightarrow>
   compute_torques chk self velocity ang_velocity rotation res = Inl e"
  by (simp add: compute_torques_def Let_def)

text \<open>The division of line 136 raises exactly when the model's \<open>I_xx\<close> is zero.\<close>

lemma compute_wobble_precession_raises:
  "I_xx (model self) = Fin 0 \<Longrightarrow>
   compute_wobble_precession self ang_velocity torque = Inl ZeroDivisionError"
  by (simp add: compute_wobble_precession_def Let_def)

lemma compute_wobble_precession_returns:
  "I_xx (model self) \<noteq> Fin 0 \<Longrightarrow>
   \<exists>T. compute_wobble_precession self ang_velocity torque = Inr T"
  by (simp add: compute_wobble_precession_def Let_def)

lemma zero_spin_rate:
  "quaternion_rate ZeroOnly rotation (combined_w self velocity (dphi, dtheta, Fin 0) res)
     = Inr (NaN, NaN, NaN, NaN)"
  "quaternion_rate ZeroOrNaN rotation (combined_w self velocity (dphi, dtheta, Fin 0) res)
     = Inl ValueError_zero_norm"
proof -
  obtain a b c where w: "combined_w self velocity (dphi, dtheta, Fin 0) res = (a, b, c)"
    by (rule prod_cases3)
  from combined_w_zero_spin [of self velocity dphi dtheta res]
  have nf: "\<not> isfinite a" "\<not> isfinite b" "\<not> isfinite c"
    by (simp_all add: w)
  show "quaternion_rate ZeroOnly rotation (combined_w self velocity (dphi, dtheta, Fin 0) res)
     = Inr (NaN, NaN, NaN, NaN)"
    unfolding w by (rule quaternion_rate_not_finite(1) [OF nf])
  show "quaternion_rate ZeroOrNaN rotation (combined_w self velocity (dphi, dtheta, Fin 0) res)
     = Inl ValueError_zero_norm"
    unfolding w by (rule quaternion_rate_not_finite(2) [OF nf])
qed

text \<open>
  C2, as the code has it: with a spin rate of zero the torque computation divides the
  roll and pitch moments by \<open>I_zz\<close> times zero all the same, and every component of the
  combined rate is infinite or NaN. There is no zero-spin error. Where the rotation
  constructor rejects a NaN norm, the computation and the entry point end in its
  zero-norm error; where it lets NaN through, the quaternion derivative is NaN in all
  four components and the entry point returns it, unless the quaternion of the state
  itself has norm zero or the division of line 136 raises.
\<close>

theorem zero_spin_unchecked:
  assumes len: "length s = 13"
    and spin: "s ! 12 = Fin 0"
  shows "\<not> isfinite (idx0 (combined_w self velocity (dphi, dtheta, Fin 0) res)) \<and>
         \<not> isfinite (idx1 (combined_w self velocity (dphi, dtheta, Fin 0) res)) \<and>
         \<not> isfinite (idx2 (combined_w self velocity (dphi, dtheta, Fin 0) res)) \<and>
         compute_torques ZeroOrNaN self velocity (dphi, dtheta, Fin 0) rotation res
           = Inl ValueError_zero_norm \<and>
         quaternion_rate ZeroOnly rotation (combined_w self velocity (dphi, dtheta, Fin 0) res)
           = Inr (NaN, NaN, NaN, NaN) \<and>
         map_sum id dq (compute_torques ZeroOnly self velocity (dphi, dtheta, Fin 0) rotation res)
           = map_sum id (\<lambda>T. (NaN, NaN, NaN, NaN))
               (compute_wobble_precession self (dphi, dtheta, Fin 0)
                  (torque_amplitude_of self velocity)) \<and>
         compute_derivatives ZeroOrNaN self t s = Inl ValueError_zero_norm \<and>
         compute_derivatives ZeroOnly self t s
           = (case from_quat ZeroOnly (s ! 6, s ! 7, s ! 8, s ! 9) of
                Inl e \<Rightarrow> Inl e
              | Inr r \<Rightarrow>
                  (case compute_wobble_precession self (s ! 10, s ! 11, Fin 0)
                          (torque_amplitude_of self (s ! 3, s ! 4, s ! 5)) of
                     Inl e \<Rightarrow> Inl e
                   | Inr T \<Rightarrow>
                       Inr ([s ! 3, s ! 4, s ! 5]
                            @ vec3_list (Acc (compute_forces self r (s ! 3, s ! 4, s ! 5)
                                                (s ! 10, s ! 11, Fin 0)))
                            @ [NaN, NaN, NaN, NaN]
                            @ vec3_list T)))"
proof -
  have strict: "compute_torques ZeroOrNaN self' v (p, q, Fin 0) r res' = Inl ValueError_zero_norm"
    for self' v p q r res'
    by (rule compute_torques_error [OF zero_spin_rate(2)])
  have lenient: "compute_torques ZeroOnly self' v (p, q, Fin 0) r res'
      = (case compute_wobble_precession self' (p, q, Fin 0) (torque_amplitude_of self' v) of
           Inl e \<Rightarrow> Inl e
         | Inr T \<Rightarrow>
             Inr \<lparr> unit_vectors = unit_vectors res',
                   angle_of_attack = angle_of_attack res',
                   res_w = res_w res',
                   F_lift = F_lift res', F_side = F_side res', F_drag = F_drag res',
                   F_grav = F_grav res', F_total = F_total res', Acc = Acc res',
                   torque_amplitude = torque_amplitude_of self' v,
                   res_T = T,
                   dq = (NaN, NaN, NaN, NaN) \<rparr>)"
    for self' v p q r res'
    by (simp add: compute_torques_def Let_def zero_spin_rate(1))
  have 0: "map_sum id dq
             (compute_torques ZeroOnly self velocity (dphi, dtheta, Fin 0) rotation res)
           = map_sum id (\<lambda>T. (NaN, NaN, NaN, NaN))
               (compute_wobble_precession self (dphi, dtheta, Fin 0)
                  (torque_amplitude_of self velocity))"
    by (simp add: lenient split: sum.splits)
  have 1: "compute_derivatives ZeroOrNaN self t s = Inl ValueError_zero_norm"
    using len
    by (cases "from_quat ZeroOrNaN (s ! 6, s ! 7, s ! 8, s ! 9)")
       (auto simp: compute_derivatives_def Let_def spin strict from_quat_def
             split: if_splits)
  have 2: "compute_derivatives ZeroOnly self t s
           = (case from_quat ZeroOnly (s ! 6, s ! 7, s ! 8, s ! 9) of
                Inl e \<Rightarrow> Inl e
              | Inr r \<Rightarrow>
                  (case compute_wobble_precession self (s ! 10, s ! 11, Fin 0)
                          (torque_amplitude_of self (s ! 3, s ! 4, s ! 5)) of
                     Inl e \<Rightarrow> Inl e
                   | Inr T \<Rightarrow>
                       Inr ([s ! 3, s ! 4, s ! 5]
                            @ vec3_list (Acc (compute_forces self r (s ! 3, s ! 4, s ! 5)
                                                (s ! 10, s ! 11, Fin 0)))
                            @ [NaN, NaN, NaN, NaN]
                            @ vec3_list T)))"
    using len
    by (simp add: compute_derivatives_def Let_def spin lenient vec3_list_def
          split: sum.splits)
  from combined_w_zero_spin [of self velocity dphi dtheta res]
    strict [of self velocity dphi dtheta rotation res]
    zero_spin_rate(1) [of rotation self velocity dphi dtheta res] 0 1 2
  show ?thesis
    by (simp only: simp_thms)
qed

theorem zero_spin_unchecked_witness:
  "compute_derivatives ZeroOrNaN scenario_eom (Fin 0) zero_spin_state
     = Inl ValueError_zero_norm \<and>
   compute_torques ZeroOrNaN scenario_eom (Fin 10, Fin 0, Fin 0) (Fin 0, Fin 0, Fin 0)
     (Fin 0, Fin 0, Fin 0, Fin 1)
     (compute_forces scenario_eom (Fin 0, Fin 0, Fin 0, Fin 1) (Fin 10, Fin 0, Fin 0)
        (Fin 0, Fin 0, Fin 0))
     = Inl ValueError_zero_norm"
proof -
  have len: "length zero_spin_state = 13" and spin: "zero_spin_state ! 12 = Fin 0"
    by (simp_all add: zero_spin_state_def)
  note all = zero_spin_unchecked [OF len spin, of scenario_eom "(Fin 10, Fin 0, Fin 0)"
      "Fin 0" "Fin 0"
      "compute_forces scenario_eom (Fin 0, Fin 0, Fin 0, Fin 1) (Fin 10, Fin 0, Fin 0)
         (Fin 0, Fin 0, Fin 0)"
      "(Fin 0, Fin 0, Fin 0, Fin 1)" "Fin 0"]
  from all show ?thesis
    by (elim conjE) (intro conjI, assumption+)
qed

text \<open>
  The zero-spin state of the first flight: the division is performed and the combined
  rate is NaN; the entry point returns a vector with a NaN quaternion derivative, or
  ends in the constructor's zero-norm error, which is also what a state with a zero
  quaternion and a spin of 50 ends in.
\<close>

lemma zero_spin_combined_w:
  "combined_w scenario_eom (Fin 10, Fin 0, Fin 0) (Fin 0, Fin 0, Fin 0)
     (compute_forces scenario_eom (Fin 0, Fin 0, Fin 0, Fin 1) (Fin 10, Fin 0, Fin 0)
        (Fin 0, Fin 0, Fin 0))
   = (NaN, NaN, NaN)"
  by (simp add: combined_w_def roll_def pitch_up_def scenario_forces
        scenario_torque_amplitude Let_def)
     (simp add: scenario_eom_def scenario_model_def)

theorem zero_spin_counterexample:
  "combined_w scenario_eom (Fin 10, Fin 0, Fin 0) (Fin 0, Fin 0, Fin 0)
     (compute_forces scenario_eom (Fin 0, Fin 0, Fin 0, Fin 1) (Fin 10, Fin 0, Fin 0)
        (Fin 0, Fin 0, Fin 0))
     = (NaN, NaN, NaN) \<and>
   compute_derivatives ZeroOnly scenario_eom (Fin 0) zero_spin_state
     = Inr [Fin 10, Fin 0, Fin 0, Fin (- 2.03), Fin 0, Fin (- 3.72),
            NaN, NaN, NaN, NaN, Fin 0, Fin 0, Fin 0] \<and>
   compute_derivatives ZeroOrNaN scenario_eom (Fin 0) zero_spin_state
     = Inl ValueError_zero_norm \<and>
   compute_derivatives ZeroOrNaN scenario_eom (Fin 0) zero_quaternion_state
     = Inl ValueError_zero_norm"
proof -
  have nf: "\<not> isfinite NaN"
    by simp
  note rate = quaternion_rate_not_finite [OF nf nf nf, of "(Fin 0, Fin 0, Fin 0, Fin 1)"]
  have 1: "compute_derivatives ZeroOnly scenario_eom (Fin 0) zero_spin_state
     = Inr [Fin 10, Fin 0, Fin 0, Fin (- 2.03), Fin 0, Fin (- 3.72),
            NaN, NaN, NaN, NaN, Fin 0, Fin 0, Fin 0]"
    by (simp add: compute_derivatives_def zero_spin_state_def compute_torques_def
          zero_spin_combined_w rate scenario_torque_amplitude
          scenario_wobble_precession Let_def)
       (simp add: scenario_forces)
  have 2: "compute_derivatives ZeroOrNaN scenario_eom (Fin 0) zero_spin_state
     = Inl ValueError_zero_norm"
    by (simp add: compute_derivatives_def zero_spin_state_def compute_torques_def
          zero_spin_combined_w rate Let_def)
  have 3: "compute_derivatives ZeroOrNaN scenario_eom (Fin 0) zero_quaternion_state
     = Inl ValueError_zero_norm"
    by (simp add: compute_derivatives_def zero_quaternion_state_def from_quat_def norm4_def
          Let_def)
  from zero_spin_combined_w 1 2 3 show ?thesis
    by (intro conjI)
qed

section \<open>Degenerate velocity\<close>

lemma norm3_eq_zero: "norm3 u = Fin 0 \<Longrightarrow> u = (Fin 0, Fin 0, Fin 0)"
proof -
  obtain a b c where u: "u = (a, b, c)"
    by (rule prod_cases3)
  assume "norm3 u = Fin 0"
  then show ?thesis
    unfolding u
    by (cases a; cases b; cases c)
       (auto simp: norm3_def plus_npfloat_def times_npfloat_def add_nonneg_eq_0_iff
             split: if_splits)
qed

lemma cross_NaN [simp]: "cross (a :: npfloat vec3) (NaN, NaN, NaN) = (NaN, NaN, NaN)"
  by (cases a rule: prod_cases3) simp

lemma vadd_NaN_left [simp]: "vadd (NaN, NaN, NaN) (b :: npfloat vec3) = (NaN, NaN, NaN)"
  by (cases b rule: prod_cases3) simp

lemma vadd_NaN_right [simp]: "vadd (a :: npfloat vec3) (NaN, NaN, NaN) = (NaN, NaN, NaN)"
  by (cases a rule: prod_cases3) simp

text \<open>
  An in-plane velocity of norm zero: the resolver divides zero by zero, and \<open>xhat\<close> and
  \<open>yhat\<close> are NaN; so are the acceleration and the combined rate.
\<close>

lemma degenerate_resolver:
  assumes "norm3 (v_in_plane_of rotation velocity) = Fin 0"
  shows "unit_vectors (calculate_intermediate_quantities rotation velocity ang_velocity)
         = \<lparr> xhat = (NaN, NaN, NaN), yhat = (NaN, NaN, NaN), zhat = zhat_of rotation \<rparr>"
  using assms norm3_eq_zero [OF assms]
  by (simp add: calculate_intermediate_quantities_def Let_def)

lemma degenerate_forces:
  assumes "norm3 (v_in_plane_of rotation velocity) = Fin 0"
  shows "Acc (compute_forces self rotation velocity ang_velocity) = (NaN, NaN, NaN)"
    and "combined_w self velocity ang_velocity
           (compute_forces self rotation velocity ang_velocity) = (NaN, NaN, NaN)"
  by (simp_all add: compute_forces_def combined_w_def roll_def Let_def
        degenerate_resolver [OF assms])

lemma zero_velocity_in_plane:
  assumes "norm3 velocity = Fin 0"
  shows "norm3 (v_in_plane_of (Fin x, Fin y, Fin z, Fin w) velocity) = Fin 0"
proof -
  have v: "velocity = lift3 (0, 0, 0)"
    using norm3_eq_zero [OF assms] by simp
  show ?thesis
    unfolding v
    by (simp only: v_in_plane_of_finite [OF zhat_of_finite] norm3_lift)
       (simp add: dot3_self_zero_iff)
qed

text \<open>The constructor leaves a unit quaternion as it is.\<close>

lemma from_quat_unit:
  assumes "dot4 q q = 1"
  shows "from_quat chk (lift4 q) = Inr (lift4 q)"
proof -
  from assms have nz: "q \<noteq> (0, 0, 0, 0)"
    by auto
  have "qdiv q 1 = q"
    by (cases q rule: prod_cases4) simp
  with from_quat_finite [OF nz, of chk] assms show ?thesis
    by simp
qed

text \<open>The level disc moving along its normal: the in-plane velocity is zero.\<close>

lemma level_disc_in_plane:
  assumes "qw * qw = 1"
  shows "v_in_plane_of (lift4 (0, 0, 0, qw)) (lift3 (0, 0, vz)) = (Fin 0, Fin 0, Fin 0)"
proof -
  have zh: "zhat_of (lift4 (0, 0, 0, qw)) = lift3 (0, 0, 1)"
    using assms by (simp add: zhat_of_finite)
  show ?thesis
    by (simp only: v_in_plane_of_finite [OF zh]) simp
qed

text \<open>
  C1, as the code has it: for a state with a unit quaternion whose velocity is zero, or
  whose disc is level and moves along its normal, the in-plane velocity computes to
  zero exactly; the evaluation divides by its zero norm all the same, and \<open>xhat\<close> is
  NaN. No domain error of the module exists. Where the rotation constructor rejects a
  NaN norm, the entry point ends in its zero-norm error; where it lets NaN through,
  the entry point returns a vector whose linear acceleration and quaternion derivative
  are NaN, unless the division of line 136 raises.
\<close>

theorem degenerate_velocity_unchecked:
  fixes q :: "real vec4" and v :: "real vec3"
  assumes len: "length s = 13"
    and quat: "(s ! 6, s ! 7, s ! 8, s ! 9) = lift4 q"
    and unit: "dot4 q q = 1"
    and vel: "(s ! 3, s ! 4, s ! 5) = lift3 v"
    and deg: "v = (0, 0, 0) \<or> (\<exists>qw vz. q = (0, 0, 0, qw) \<and> v = (0, 0, vz))"
  shows "from_quat chk (s ! 6, s ! 7, s ! 8, s ! 9) = Inr (lift4 q) \<and>
         v_in_plane_of (lift4 q) (lift3 v) = (Fin 0, Fin 0, Fin 0) \<and>
         xhat (unit_vectors (calculate_intermediate_quantities (lift4 q) (lift3 v)
                 (s ! 10, s ! 11, s ! 12))) = (NaN, NaN, NaN) \<and>
         compute_derivatives ZeroOrNaN self t s = Inl ValueError_zero_norm \<and>
         compute_derivatives ZeroOnly self t s
           = (case compute_wobble_precession self (s ! 10, s ! 11, s ! 12)
                     (torque_amplitude_of self (lift3 v)) of
                Inl e \<Rightarrow> Inl e
              | Inr T \<Rightarrow>
                  Inr ([s ! 3, s ! 4, s ! 5] @ [NaN, NaN, NaN] @ [NaN, NaN, NaN, NaN]
                       @ vec3_list T))"
proof -
  let ?av = "(s ! 10, s ! 11, s ! 12)"
  have rot: "from_quat chk (s ! 6, s ! 7, s ! 8, s ! 9) = Inr (lift4 q)" for chk
    unfolding quat by (rule from_quat_unit [OF unit])
  obtain x y z w where q: "q = (x, y, z, w)"
    by (cases q rule: prod_cases4)
  from deg have zero: "v_in_plane_of (lift4 q) (lift3 v) = (Fin 0, Fin 0, Fin 0)"
  proof
    assume "v = (0, 0, 0)"
    then have "norm3 (lift3 v) = Fin 0"
      by (simp add: norm3_def)
    from zero_velocity_in_plane [OF this, of x y z w]
    have "norm3 (v_in_plane_of (lift4 q) (lift3 v)) = Fin 0"
      by (simp only: q lift4.simps)
    then show ?thesis
      by (rule norm3_eq_zero)
  next
    assume "\<exists>qw vz. q = (0, 0, 0, qw) \<and> v = (0, 0, vz)"
    then obtain qw vz where q': "q = (0, 0, 0, qw)" and v: "v = (0, 0, vz)"
      by blast
    from unit q' have "qw * qw = 1"
      by simp
    from level_disc_in_plane [OF this, of vz] show ?thesis
      by (simp only: q' v)
  qed
  then have flat: "norm3 (v_in_plane_of (lift4 q) (lift3 v)) = Fin 0"
    by (simp add: norm3_def)
  note forces = degenerate_forces [OF flat, of self ?av]
  have nf: "\<not> isfinite NaN"
    by simp
  note rate = quaternion_rate_not_finite [OF nf nf nf, of "lift4 q"]
  have 1: "xhat (unit_vectors (calculate_intermediate_quantities (lift4 q) (lift3 v) ?av))
           = (NaN, NaN, NaN)"
    by (simp only: degenerate_resolver [OF flat] unit_vectors.simps)
  have 2: "compute_derivatives ZeroOrNaN self t s = Inl ValueError_zero_norm"
    using len
    by (simp add: compute_derivatives_def Let_def rot vel compute_torques_def forces rate
          del: lift4.simps lift3.simps)
  have 3: "compute_derivatives ZeroOnly self t s
           = (case compute_wobble_precession self ?av (torque_amplitude_of self (lift3 v)) of
                Inl e \<Rightarrow> Inl e
              | Inr T \<Rightarrow>
                  Inr ([s ! 3, s ! 4, s ! 5] @ [NaN, NaN, NaN] @ [NaN, NaN, NaN, NaN]
                       @ vec3_list T))"
    using len vel
    by (simp add: compute_derivatives_def Let_def rot vel compute_torques_def forces rate
          vec3_list_def del: lift4.simps lift3.simps split: sum.splits)
  from rot [of chk] zero 1 2 3 show ?thesis
    by (intro conjI)
qed

theorem degenerate_velocity_unchecked_witness:
  "compute_derivatives ZeroOrNaN scenario_eom (Fin 0) zero_velocity_state
     = Inl ValueError_zero_norm \<and>
   compute_derivatives ZeroOrNaN scenario_eom (Fin 0) falling_state
     = Inl ValueError_zero_norm \<and>
   v_in_plane_of (Fin 0, Fin 0, Fin 0, Fin 1) (Fin 0, Fin 0, Fin (- 5))
     = (Fin 0, Fin 0, Fin 0)"
proof -
  have len: "length zero_velocity_state = 13" "length falling_state = 13"
    by (simp_all add: zero_velocity_state_def falling_state_def)
  have quat: "(zero_velocity_state ! 6, zero_velocity_state ! 7, zero_velocity_state ! 8,
               zero_velocity_state ! 9) = lift4 (0, 0, 0, 1)"
    "(falling_state ! 6, falling_state ! 7, falling_state ! 8, falling_state ! 9)
       = lift4 (0, 0, 0, 1)"
    by (simp_all add: zero_velocity_state_def falling_state_def)
  have unit: "dot4 (0, 0, 0, 1) (0, 0, 0, 1 :: real) = 1"
    by simp
  have vel: "(zero_velocity_state ! 3, zero_velocity_state ! 4, zero_velocity_state ! 5)
             = lift3 (0, 0, 0)"
    "(falling_state ! 3, falling_state ! 4, falling_state ! 5) = lift3 (0, 0, - 5)"
    by (simp_all add: zero_velocity_state_def falling_state_def)
  have still: "(0, 0, 0) = (0, 0, 0 :: real) \<or>
               (\<exists>qw vz. (0, 0, 0, 1) = (0, 0, 0, qw :: real) \<and> (0, 0, 0) = (0, 0, vz :: real))"
    by simp
  have falling: "(0, 0, - 5) = (0, 0, 0 :: real) \<or>
               (\<exists>qw vz. (0, 0, 0, 1) = (0, 0, 0, qw :: real) \<and> (0, 0, - 5) = (0, 0, vz :: real))"
    by simp
  from degenerate_velocity_unchecked [OF len(1) quat(1) unit vel(1) still,
      of ZeroOnly scenario_eom "Fin 0"]
  have a: "compute_derivatives ZeroOrNaN scenario_eom (Fin 0) zero_velocity_state
           = Inl ValueError_zero_norm"
    by (elim conjE)
  note fall = degenerate_velocity_unchecked [OF len(2) quat(2) unit vel(2) falling,
      of ZeroOnly scenario_eom "Fin 0"]
  from fall have b: "compute_derivatives ZeroOrNaN scenario_eom (Fin 0) falling_state
           = Inl ValueError_zero_norm"
    by (elim conjE)
  from fall
  have c: "v_in_plane_of (lift4 (0, 0, 0, 1)) (lift3 (0, 0, - 5)) = (Fin 0, Fin 0, Fin 0)"
    by (elim conjE)
  from c have c': "v_in_plane_of (Fin 0, Fin 0, Fin 0, Fin 1) (Fin 0, Fin 0, Fin (- 5))
     = (Fin 0, Fin 0, Fin 0)"
    by simp
  from a b c' show ?thesis
    by (intro conjI)
qed

section \<open>A velocity almost along the disc normal\<close>

lemma near_parallel_intermediate:
  assumes "0 < a"
  shows "calculate_intermediate_quantities (Fin 0, Fin 0, Fin 0, Fin 1) (Fin a, Fin 0, Fin c)
     (Fin dphi, Fin dtheta, Fin dgamma)
   = \<lparr> unit_vectors = \<lparr> xhat = (Fin 1, Fin 0, Fin 0), yhat = (Fin 0, Fin 1, Fin 0),
                             zhat = (Fin 0, Fin 0, Fin 1) \<rparr>,
       angle_of_attack = Fin (- arctan (c / a)), res_w = (Fin dphi, Fin dtheta, Fin 0) \<rparr>"
  using assms
  by (simp add: calculate_intermediate_quantities_def zhat_of_def v_dot_zhat_of_def
        v_in_plane_of_def norm3_def Let_def)

lemma near_parallel_forces:
  assumes a: "0 < a" and N: "0 < N" and NN: "N * N = a * a + c * c"
  shows "Acc (compute_forces scenario_eom (Fin 0, Fin 0, Fin 0, Fin 1) (Fin a, Fin 0, Fin c)
                (Fin dphi, Fin dtheta, Fin dgamma))
         = (Fin (- (0.0609 * (N * c) + 0.0203 * (N * a))), Fin 0,
            Fin (0.0609 * (N * a) - 0.0203 * (N * c) - 9.81))"
proof -
  have root: "sqrt (a * a + c * c) = N"
    using N NN by (intro real_sqrt_unique) (simp_all add: power2_eq_square)
  have norm: "norm3 (Fin a, Fin 0, Fin c) = Fin N"
    using root by (simp add: norm3_def linorder_not_less)
  have dot: "dot3 (Fin a, Fin 0, Fin c) (Fin a, Fin 0, Fin c) = Fin (N * N)"
    by (simp add: NN)
  have "Acc (compute_forces scenario_eom (Fin 0, Fin 0, Fin 0, Fin 1) (Fin a, Fin 0, Fin c)
                (Fin dphi, Fin dtheta, Fin dgamma))
        = (Fin ((3 / 10 * (1 / 2 * (49 / 40) * (N * N) * (29 / 500)) * (- (c / N))
                 + 1 / 10 * (1 / 2 * (49 / 40) * (N * N) * (29 / 500)) * (- (a / N)))
                / (7 / 40)),
           Fin 0,
           Fin ((3 / 10 * (1 / 2 * (49 / 40) * (N * N) * (29 / 500)) * (a / N)
                 + 1 / 10 * (1 / 2 * (49 / 40) * (N * N) * (29 / 500)) * (- (c / N))
                 + 7 / 40 * (981 / 100) * (- 1))
                / (7 / 40)))"
    using N
    by (simp add: compute_forces_def near_parallel_intermediate [OF a] Let_def norm dot
          scenario_eom_def scenario_model_def scenario_environment_def
          del: dot3.simps)
  also have "\<dots> = (Fin (- (0.0609 * (N * c) + 0.0203 * (N * a))), Fin 0,
                     Fin (0.0609 * (N * a) - 0.0203 * (N * c) - 9.81))"
    using N by (simp add: field_simps)
  finally show ?thesis .
qed

lemma compute_forces_intermediate:
  "unit_vectors (compute_forces self rotation velocity ang_velocity)
     = unit_vectors (calculate_intermediate_quantities rotation velocity ang_velocity)"
  "angle_of_attack (compute_forces self rotation velocity ang_velocity)
     = angle_of_attack (calculate_intermediate_quantities rotation velocity ang_velocity)"
  "res_w (compute_forces self rotation velocity ang_velocity)
     = res_w (calculate_intermediate_quantities rotation velocity ang_velocity)"
  by (simp_all add: compute_forces_def Let_def)

lemma near_parallel_combined_w:
  assumes "0 < a" and "dgamma \<noteq> 0"
  shows "combined_w scenario_eom (Fin a, Fin 0, Fin c) (Fin dphi, Fin dtheta, Fin dgamma)
     (compute_forces scenario_eom (Fin 0, Fin 0, Fin 0, Fin 1) (Fin a, Fin 0, Fin c)
        (Fin dphi, Fin dtheta, Fin dgamma))
   = (Fin dphi, Fin dtheta, Fin 0)"
  using assms(2)
  by (simp add: combined_w_def roll_def pitch_up_def compute_forces_intermediate
        near_parallel_intermediate [OF assms(1)] torque_amplitude_of_def Let_def)
     (simp add: scenario_eom_def scenario_model_def scenario_environment_def)

lemma near_parallel_derivatives:
  assumes a: "0 < a" and N: "0 < N" and NN: "N * N = a * a + c * c"
  shows "compute_derivatives chk scenario_eom t
           [x, y, z, Fin a, Fin 0, Fin c, Fin 0, Fin 0, Fin 0, Fin 1, Fin 0, Fin 0, Fin 50]
         = Inr [Fin a, Fin 0, Fin c,
                Fin (- (0.0609 * (N * c) + 0.0203 * (N * a))), Fin 0,
                Fin (0.0609 * (N * a) - 0.0203 * (N * c) - 9.81),
                Fin 0, Fin 0, Fin 0, Fin 0, Fin 0, Fin 0, Fin 0]"
proof -
  have tq: "torque_amplitude_of scenario_eom (Fin a, Fin 0, Fin c)
            = Fin (1 / 2 * 1.225 * (a * a + c * c) * 0.27 * 0.058)"
    by (simp add: torque_amplitude_of_def scenario_eom_def scenario_model_def
          scenario_environment_def)
  have w: "combined_w scenario_eom (Fin a, Fin 0, Fin c) (Fin 0, Fin 0, Fin 50)
     (compute_forces scenario_eom (Fin 0, Fin 0, Fin 0, Fin 1) (Fin a, Fin 0, Fin c)
        (Fin 0, Fin 0, Fin 50))
   = (Fin 0, Fin 0, Fin 0)"
    by (rule near_parallel_combined_w [OF a]) simp
  note acc = near_parallel_forces [OF a N NN, of 0 0 50]
  show ?thesis
    by (simp add: compute_derivatives_def compute_torques_def Let_def w quaternion_rate_zero
          tq scenario_wobble_precession acc)
qed

text \<open>
  The claim refuted: a state whose in-plane velocity is \<open>2 / 10^9\<close> of its speed is
  evaluated like any other, whatever the constructor does with NaN, and the entry
  point returns a vector of finite values.
\<close>

theorem degenerate_velocity_counterexample:
  "v_in_plane_of (Fin 0, Fin 0, Fin 0, Fin 1) (Fin (2 / 10 ^ 9), Fin 0, Fin (1 - 1 / 10 ^ 18))
     = (Fin (2 / 10 ^ 9), Fin 0, Fin 0) \<and>
   compute_derivatives ZeroOnly scenario_eom (Fin 0) near_parallel_state
     = Inr [Fin (2 / 10 ^ 9), Fin 0, Fin (1 - 1 / 10 ^ 18),
            Fin (- (0.0609 * (1 - 1 / 10 ^ 36) + 0.0203 * ((1 + 1 / 10 ^ 18) * (2 / 10 ^ 9)))),
            Fin 0,
            Fin (0.0609 * ((1 + 1 / 10 ^ 18) * (2 / 10 ^ 9)) - 0.0203 * (1 - 1 / 10 ^ 36) - 9.81),
            Fin 0, Fin 0, Fin 0, Fin 0, Fin 0, Fin 0, Fin 0] \<and>
   compute_derivatives ZeroOrNaN scenario_eom (Fin 0) near_parallel_state
     = compute_derivatives ZeroOnly scenario_eom (Fin 0) near_parallel_state"
proof -
  have 0: "v_in_plane_of (Fin 0, Fin 0, Fin 0, Fin 1)
             (Fin (2 / 10 ^ 9), Fin 0, Fin (1 - 1 / 10 ^ 18))
           = (Fin (2 / 10 ^ 9), Fin 0, Fin 0)"
    by (simp add: v_in_plane_of_def v_dot_zhat_of_def zhat_of_def Let_def)
  have 1: "compute_derivatives chk scenario_eom (Fin 0) near_parallel_state
     = Inr [Fin (2 / 10 ^ 9), Fin 0, Fin (1 - 1 / 10 ^ 18),
            Fin (- (0.0609 * (1 - 1 / 10 ^ 36) + 0.0203 * ((1 + 1 / 10 ^ 18) * (2 / 10 ^ 9)))),
            Fin 0,
            Fin (0.0609 * ((1 + 1 / 10 ^ 18) * (2 / 10 ^ 9)) - 0.0203 * (1 - 1 / 10 ^ 36) - 9.81),
            Fin 0, Fin 0, Fin 0, Fin 0, Fin 0, Fin 0, Fin 0]" for chk
    using near_parallel_derivatives [of "2 / 10 ^ 9" "1 + 1 / 10 ^ 18" "1 - 1 / 10 ^ 18"
        chk "Fin 0" "Fin 0" "Fin 0" "Fin 1"]
    by (simp add: near_parallel_state_def)
  from 0 1 [of ZeroOnly] 1 [of ZeroOrNaN] show ?thesis
    by (simp only: simp_thms)
qed

end
